theory Spec2Isabelle
  imports Main "HOL-Library.AList"
begin

section \<open>Strings of the Go runtime\<close>

text \<open>
  A Go string is a sequence of bytes; \<^typ>\<open>string\<close> is a list of 8-bit characters.
  The functions of package \<^verbatim>\<open>strings\<close> that \<^verbatim>\<open>main.go\<close> calls are written out
  here with the names they have in Go.
\<close>

abbreviation NL :: char where "NL \<equiv> CHR 0x0A"

abbreviation TAB :: char where "TAB \<equiv> CHR 0x09"

abbreviation CR :: char where "CR \<equiv> CHR 0x0D"

abbreviation BSL :: char where "BSL \<equiv> CHR 0x5C"

abbreviation DQ :: char where "DQ \<equiv> CHR 0x22"

fun HasPrefix :: "string \<Rightarrow> string \<Rightarrow> bool" where
  "HasPrefix s [] = True"
| "HasPrefix [] (p # ps) = False"
| "HasPrefix (c # cs) (p # ps) = (c = p \<and> HasPrefix cs ps)"

definition HasSuffix :: "string \<Rightarrow> string \<Rightarrow> bool" where
  "HasSuffix s suf = HasPrefix (rev s) (rev suf)"

definition TrimPrefix :: "string \<Rightarrow> string \<Rightarrow> string" where
  "TrimPrefix s p = (if HasPrefix s p then drop (length p) s else s)"

definition TrimSuffix :: "string \<Rightarrow> string \<Rightarrow> string" where
  "TrimSuffix s suf = (if HasSuffix s suf then take (length s - length suf) s else s)"

fun Contains :: "string \<Rightarrow> string \<Rightarrow> bool" where
  "Contains [] sub = (sub = [])"
| "Contains (c # cs) sub = (HasPrefix (c # cs) sub \<or> Contains cs sub)"

text \<open>
  \<^verbatim>\<open>strings.Split(s, sep)\<close>: every call in \<^verbatim>\<open>main.go\<close> passes a separator of one
  byte (newline, colon or underscore), so the separator is a \<^typ>\<open>char\<close>. The result
  always has at least one piece.
\<close>

fun Split :: "string \<Rightarrow> char \<Rightarrow> string list" where
  "Split [] sep = [[]]"
| "Split (c # cs) sep =
     (if c = sep then [] # Split cs sep
      else (case Split cs sep of [] \<Rightarrow> [[c]] | p # ps \<Rightarrow> (c # p) # ps))"

fun Join :: "string list \<Rightarrow> string \<Rightarrow> string" where
  "Join [] sep = []"
| "Join [x] sep = x"
| "Join (x # y # ys) sep = x @ sep @ Join (y # ys) sep"

text \<open>
  \<^verbatim>\<open>strings.ReplaceAll(s, old, new)\<close> replaces the non-overlapping occurrences of
  \<open>old\<close> from left to right. Every call in \<^verbatim>\<open>main.go\<close> passes a non-empty \<open>old\<close>.
\<close>

function ReplaceAll :: "string \<Rightarrow> string \<Rightarrow> string \<Rightarrow> string" where
  "ReplaceAll [] old new = []"
| "ReplaceAll (c # cs) old new =
     (if old \<noteq> [] \<and> HasPrefix (c # cs) old
      then new @ ReplaceAll (drop (length old) (c # cs)) old new
      else c # ReplaceAll cs old new)"
  by pat_completeness auto
termination
  by (relation "measure (\<lambda>(s, old, new). length s)") auto

text \<open>
  \<^verbatim>\<open>strings.TrimSpace\<close> removes leading and trailing Unicode white space. On bytes
  that is: the six ASCII white-space bytes and the UTF-8 encodings of U+0085, U+00A0,
  U+1680, U+2000 to U+200A, U+2028, U+2029, U+202F, U+205F and U+3000.
\<close>

definition spaceRunes :: "string list" where
  "spaceRunes =
     [[CHR 0x09], [CHR 0x0A], [CHR 0x0B], [CHR 0x0C], [CHR 0x0D], [CHR 0x20],
      [CHR 0xC2, CHR 0x85], [CHR 0xC2, CHR 0xA0],
      [CHR 0xE1, CHR 0x9A, CHR 0x80],
      [CHR 0xE2, CHR 0x80, CHR 0x80], [CHR 0xE2, CHR 0x80, CHR 0x81],
      [CHR 0xE2, CHR 0x80, CHR 0x82], [CHR 0xE2, CHR 0x80, CHR 0x83],
      [CHR 0xE2, CHR 0x80, CHR 0x84], [CHR 0xE2, CHR 0x80, CHR 0x85],
      [CHR 0xE2, CHR 0x80, CHR 0x86], [CHR 0xE2, CHR 0x80, CHR 0x87],
      [CHR 0xE2, CHR 0x80, CHR 0x88], [CHR 0xE2, CHR 0x80, CHR 0x89],
      [CHR 0xE2, CHR 0x80, CHR 0x8A],
      [CHR 0xE2, CHR 0x80, CHR 0xA8], [CHR 0xE2, CHR 0x80, CHR 0xA9],
      [CHR 0xE2, CHR 0x80, CHR 0xAF],
      [CHR 0xE2, CHR 0x81, CHR 0x9F],
      [CHR 0xE3, CHR 0x80, CHR 0x80]]"

definition leadSpace :: "string \<Rightarrow> nat" where
  "leadSpace s = (case find (HasPrefix s) spaceRunes of None \<Rightarrow> 0 | Some r \<Rightarrow> length r)"

definition trailSpace :: "string \<Rightarrow> nat" where
  "trailSpace s = (case find (HasSuffix s) spaceRunes of None \<Rightarrow> 0 | Some r \<Rightarrow> length r)"

function TrimLeft :: "string \<Rightarrow> string" where
  "TrimLeft s = (if leadSpace s = 0 then s else TrimLeft (drop (leadSpace s) s))"
  by pat_completeness auto
termination
proof (relation "measure length")
  show "wf (measure length)" by simp
next
  fix s :: string
  assume some: "leadSpace s \<noteq> 0"
  then have "s \<noteq> []" by (auto simp: leadSpace_def spaceRunes_def)
  then show "(drop (leadSpace s) s, s) \<in> measure length"
    using some by simp
qed

function TrimRight :: "string \<Rightarrow> string" where
  "TrimRight s =
     (if trailSpace s = 0 then s else TrimRight (take (length s - trailSpace s) s))"
  by pat_completeness auto
termination
proof (relation "measure length")
  show "wf (measure length)" by simp
next
  fix s :: string
  assume some: "trailSpace s \<noteq> 0"
  then have "s \<noteq> []" by (auto simp: trailSpace_def spaceRunes_def HasSuffix_def)
  then show "(take (length s - trailSpace s) s, s) \<in> measure length"
    using some by simp
qed

declare TrimLeft.simps [simp del] TrimRight.simps [simp del]

definition TrimSpace :: "string \<Rightarrow> string" where
  "TrimSpace s = TrimRight (TrimLeft s)"

section \<open>Errors\<close>

text \<open>
  What can go wrong in a run: a run-time panic of Go (a slice expression out of range),
  and the error values that the functions of \<^verbatim>\<open>main.go\<close> return.
\<close>

datatype error =
    Panic
  | OpenError
  | WriteError
  | TokenTooLong
  | NoTargetLanguage

section \<open>The escaper\<close>

text \<open>
  \<^verbatim>\<open>extractString\<close> (main.go, 339 to 349). The slice \<^verbatim>\<open>s[1 : len(s)-1]\<close> panics
  when \<open>s\<close> is the single byte of a double quote, which has the quote both as prefix and
  as suffix: the result is \<open>None\<close> there.
\<close>

definition extractString :: "string \<Rightarrow> string option" where
  "extractString s0 =
     (let s = TrimSpace s0 in
      if HasPrefix s [DQ] \<and> HasSuffix s [DQ] \<and> length s < 2 then None
      else
        let s = (if HasPrefix s [DQ] \<and> HasSuffix s [DQ]
                 then take (length s - 2) (drop 1 s) else s);
            s = ReplaceAll s [BSL, CHR ''n''] [NL];
            s = ReplaceAll s [BSL, CHR ''t''] [TAB];
            s = ReplaceAll s [BSL, DQ] [DQ]
        in Some s)"

text \<open>\<^verbatim>\<open>escapeString\<close> (main.go, 351 to 357).\<close>

definition escapeString :: "string \<Rightarrow> string" where
  "escapeString s0 =
     (let s = ReplaceAll s0 [BSL] [BSL, BSL];
          s = ReplaceAll s [DQ] [BSL, DQ];
          s = ReplaceAll s [NL] [BSL, CHR ''n''];
          s = ReplaceAll s [TAB] [BSL, CHR ''t'']
      in s)"

text \<open>
  What \<^verbatim>\<open>escapeString\<close> writes for one byte other than the backslash, and what is left
  of it after the first and after the second replacement of \<^verbatim>\<open>extractString\<close>.
\<close>

definition esc :: "char \<Rightarrow> string" where
  "esc x = (if x = DQ then [BSL, DQ] else if x = NL then [BSL, CHR ''n'']
            else if x = TAB then [BSL, CHR ''t''] else [x])"

definition esc1 :: "char \<Rightarrow> string" where
  "esc1 x = (if x = DQ then [BSL, DQ] else if x = TAB then [BSL, CHR ''t''] else [x])"

definition esc2 :: "char \<Rightarrow> string" where
  "esc2 x = (if x = DQ then [BSL, DQ] else [x])"

section \<open>Files and the line scanner\<close>

text \<open>
  The file system is a map from paths to contents. \<^verbatim>\<open>os.Open\<close> and
  \<^verbatim>\<open>os.ReadFile\<close> fail on a path that is not in the map.
\<close>

type_synonym files = "string \<rightharpoonup> string"

text \<open>
  \<^verbatim>\<open>bufio.Scanner\<close> with the default split function \<^verbatim>\<open>ScanLines\<close>: the content is cut
  at newlines, a final empty line yields no token, one trailing carriage return is
  dropped from each token, and a line of more than 65535 bytes stops the scan with the
  error \<^verbatim>\<open>ErrTooLong\<close> (the buffer holds at most 64 * 1024 bytes, terminator included).
  The second component says whether \<^verbatim>\<open>scanner.Err()\<close> is set.
\<close>

definition dropCR :: "string \<Rightarrow> string" where
  "dropCR l = (if l \<noteq> [] \<and> last l = CR then butlast l else l)"

definition scanLines :: "string \<Rightarrow> string list \<times> bool" where
  "scanLines content =
     (let raw = Split content NL;
          raw = (if last raw = [] then butlast raw else raw);
          toks = takeWhile (\<lambda>l. int (length l) \<le> 65535) raw
      in (map dropCR toks, length toks < length raw))"

text \<open>\<^verbatim>\<open>filepath.Base\<close> on a system whose path separator is the slash.\<close>

definition Base :: "string \<Rightarrow> string" where
  "Base path =
     (if path = [] then ''.''
      else
        let p = rev (dropWhile (\<lambda>c. c = CHR ''/'') (rev path));
            p = rev (takeWhile (\<lambda>c. c \<noteq> CHR ''/'') (rev p))
        in if p = [] then ''/'' else p)"

section \<open>The target language of a PO file\<close>

text \<open>
  The value of a \<^verbatim>\<open>"Language:\<close> line, as \<^verbatim>\<open>parsePotFile\<close> (main.go, 269 to 281) and
  \<^verbatim>\<open>getTargetLanguage\<close> (369 to 381) both compute it; empty when the line has no such
  field.
\<close>

definition languageField :: "string \<Rightarrow> string" where
  "languageField line =
     (if Contains line (DQ # ''Language:'') then
        (let parts = Split line (CHR '':'') in
         if 2 \<le> length parts then
           (let lang = TrimSpace (parts ! 1);
                lang = TrimPrefix lang [DQ];
                lang = TrimSuffix lang [BSL, CHR ''n'', DQ];
                lang = TrimSuffix lang [DQ]
            in lang)
         else [])
      else [])"

fun scanLanguage :: "string list \<Rightarrow> string option" where
  "scanLanguage [] = None"
| "scanLanguage (line # rest) =
     (if languageField line \<noteq> [] then Some (languageField line) else scanLanguage rest)"

text \<open>\<^verbatim>\<open>getTargetLanguage\<close> (main.go, 359 to 395).\<close>

definition getTargetLanguage :: "files \<Rightarrow> string \<Rightarrow> error + string" where
  "getTargetLanguage fs poFile =
     (case fs poFile of
        None \<Rightarrow> Inl OpenError
      | Some content \<Rightarrow>
          (case scanLanguage (fst (scanLines content)) of
             Some lang \<Rightarrow> Inr lang
           | None \<Rightarrow>
               (let base = Base poFile;
                    parts = Split base (CHR ''_'')
                in if 2 \<le> length parts then
                     (let lang = TrimSuffix (last parts) ''.po''
                      in if lang \<noteq> [] then Inr lang else Inl NoTargetLanguage)
                   else Inl NoTargetLanguage)))"

text \<open>
  The language that a file name yields, in the words of the specification: the text
  after the last underscore, without the suffix \<^verbatim>\<open>.po\<close>, when that is not empty.
\<close>

definition languageFromName :: "string \<Rightarrow> string option" where
  "languageFromName name =
     (if CHR ''_'' \<in> set name then
        (let lang = TrimSuffix (rev (takeWhile (\<lambda>c. c \<noteq> CHR ''_'') (rev name))) ''.po''
         in if lang = [] then None else Some lang)
      else None)"

section \<open>Catalog entries and Go maps\<close>

text \<open>\<^verbatim>\<open>type POEntry struct\<close> (main.go, 244 to 247).\<close>

record POEntry =
  Msgstr :: string
  Comments :: "string list"

text \<open>
  A Go map is an association list with distinct keys: \<open>map_of m k\<close> reads \<^verbatim>\<open>m[k]\<close>,
  \<open>AList.update k v m\<close> is \<^verbatim>\<open>m[k] = v\<close> and \<open>AList.delete k m\<close> is
  \<^verbatim>\<open>delete(m, k)\<close>. The list keeps the keys in the order of their first insertion.
  Go keeps no such order: the order in which a \<^verbatim>\<open>range\<close> statement visits the keys of
  a map is not specified and changes from one run to the next. So every \<^verbatim>\<open>range\<close>
  over a map takes the order it visits the keys in as an argument, which may be any
  arrangement of the keys (\<open>rangeOrder\<close>); the functions never look at the order of
  the association list itself.
\<close>

type_synonym ('k, 'v) gomap = "('k \<times> 'v) list"

definition rangeOrder :: "('k, 'v) gomap \<Rightarrow> 'k list \<Rightarrow> bool" where
  "rangeOrder m ks = (distinct ks \<and> set ks = set (map fst m))"

text \<open>
  A \<^verbatim>\<open>for ... range lines\<close> loop whose body may panic: the state after the last
  line, or \<open>None\<close> when the body panicked.
\<close>

fun forLines :: "('s \<Rightarrow> string \<Rightarrow> 's option) \<Rightarrow> 's \<Rightarrow> string list \<Rightarrow> 's option" where
  "forLines body st [] = Some st"
| "forLines body st (line # rest) =
     (case body st line of None \<Rightarrow> None | Some st' \<Rightarrow> forLines body st' rest)"

text \<open>
  The four variables that every scanning loop of \<^verbatim>\<open>main.go\<close> declares; each loop
  extends them with its own.
\<close>

record scan =
  currentMsgid :: string
  currentMsgstr :: string
  inMsgid :: bool
  inMsgstr :: bool

section \<open>Parsing the template\<close>

record potScan = scan +
  entries :: "(string, POEntry) gomap"
  currentComments :: "string list"
  pendingComments :: "string list"
  sourceLang :: string

definition potInit :: potScan where
  "potInit = \<lparr>currentMsgid = [], currentMsgstr = [], inMsgid = False, inMsgstr = False,
              entries = [], currentComments = [], pendingComments = [], sourceLang = []\<rparr>"

text \<open>The body of the loop of \<^verbatim>\<open>parsePotFile\<close> (main.go, 264 to 319).\<close>

definition potLine :: "potScan \<Rightarrow> string \<Rightarrow> potScan option" where
  "potLine st0 line =
     (let trimmed = TrimSpace line;
          st = (if languageField line \<noteq> [] then st0\<lparr>sourceLang := languageField line\<rparr>
                else st0)
      in
      if HasPrefix trimmed ''msgid '' then
        (let saved = (if currentMsgid st \<noteq> []
                      then AList.update (currentMsgid st)
                             \<lparr>Msgstr = currentMsgstr st, Comments = currentComments st\<rparr>
                             (entries st)
                      else entries st)
         in case extractString (drop 6 trimmed) of
              None \<Rightarrow> None
            | Some k \<Rightarrow>
                Some (st\<lparr>entries := saved, currentMsgid := k, currentMsgstr := [],
                         currentComments := pendingComments st, pendingComments := [],
                         inMsgid := True, inMsgstr := False\<rparr>))
      else if HasPrefix trimmed ''msgstr '' then
        (case extractString (drop 7 trimmed) of
           None \<Rightarrow> None
         | Some v \<Rightarrow> Some (st\<lparr>currentMsgstr := v, inMsgid := False, inMsgstr := True\<rparr>))
      else if HasPrefix trimmed [DQ] \<and> (inMsgid st \<or> inMsgstr st) then
        (case extractString trimmed of
           None \<Rightarrow> None
         | Some str \<Rightarrow>
             if inMsgid st then Some (st\<lparr>currentMsgid := currentMsgid st @ str\<rparr>)
             else if inMsgstr st then Some (st\<lparr>currentMsgstr := currentMsgstr st @ str\<rparr>)
             else Some st)
      else if HasPrefix trimmed ''#'' then
        Some (st\<lparr>pendingComments :=
                    (if \<not> inMsgid st \<and> \<not> inMsgstr st then pendingComments st @ [line]
                     else pendingComments st),
                 inMsgid := False, inMsgstr := False\<rparr>)
      else if trimmed = [] then Some (st\<lparr>inMsgid := False, inMsgstr := False\<rparr>)
      else Some st)"

text \<open>
  \<^verbatim>\<open>parsePotFile\<close> (main.go, 249 to 337): the entries without the header's empty key,
  and the source language.
\<close>

definition parsePotFile ::
  "files \<Rightarrow> string \<Rightarrow> error + ((string, POEntry) gomap \<times> string)" where
  "parsePotFile fs potFile =
     (case fs potFile of
        None \<Rightarrow> Inl OpenError
      | Some content \<Rightarrow>
          (case forLines potLine potInit (fst (scanLines content)) of
             None \<Rightarrow> Inl Panic
           | Some st \<Rightarrow>
               (let saved = (if currentMsgid st \<noteq> []
                             then AList.update (currentMsgid st)
                                    \<lparr>Msgstr = currentMsgstr st, Comments = currentComments st\<rparr>
                                    (entries st)
                             else entries st)
                in if snd (scanLines content) then Inl TokenTooLong
                   else Inr (AList.delete [] saved, sourceLang st))))"

text \<open>
  The order of the template, in the words of the specification: the order in which the
  keys appear in the POT catalog, each key at its first appearance.
\<close>

definition templateOrder :: "files \<Rightarrow> string \<Rightarrow> string list" where
  "templateOrder fs potFile =
     (case parsePotFile fs potFile of Inl e \<Rightarrow> [] | Inr (potEntries, lang) \<Rightarrow> map fst potEntries)"

section \<open>The world of a run\<close>

text \<open>
  What a run does to its surroundings is recorded in order: the files it writes, the
  calls of the translation backend, the pauses between calls and the counts it prints.
\<close>

datatype event =
    Write string string
  | Translate string string string
  | Sleep nat
  | PrintAdded nat
  | PrintRemoved nat


text \<open>
  The state of the world: the files on disk, the events so far, and how often the flag
  \<^verbatim>\<open>interrupted\<close> has been read.
\<close>

record world =
  disk :: files
  events :: "event list"
  polls :: nat

text \<open>
  What the program does not decide itself. The flag \<^verbatim>\<open>interrupted\<close> is set by the
  signal handler, which runs beside the main flow: \<open>interrupted ev n\<close> is the value that
  the read number \<open>n\<close> of the flag returns. \<open>backend\<close> is
  \<^verbatim>\<open>gtranslate.TranslateWithParams\<close> on a text, a source and a target language,
  \<open>None\<close> when it returns an error. \<open>writable\<close> says on which paths \<^verbatim>\<open>os.WriteFile\<close>
  succeeds. \<open>clock i\<close> is \<^verbatim>\<open>time.Now()\<close> in the layout \<^verbatim>\<open>2006-01-02 15:04-0700\<close> at the
  moment line \<open>i\<close> of the template is copied, \<open>upper\<close> is \<^verbatim>\<open>strings.ToUpper\<close>, and
  \<open>joinPath\<close> is \<^verbatim>\<open>filepath.Join\<close> of two elements.
\<close>

record env =
  interrupted :: "nat \<Rightarrow> bool"
  backend :: "string \<Rightarrow> string \<Rightarrow> string \<Rightarrow> string option"
  writable :: "string \<Rightarrow> bool"
  clock :: "nat \<Rightarrow> string"
  upper :: "string \<Rightarrow> string"
  joinPath :: "string \<Rightarrow> string \<Rightarrow> string"

definition WriteFile :: "env \<Rightarrow> world \<Rightarrow> string \<Rightarrow> string \<Rightarrow> world option" where
  "WriteFile ev w name data =
     (if writable ev name
      then Some (w\<lparr>disk := (disk w)(name \<mapsto> data), events := events w @ [Write name data]\<rparr>)
      else None)"

section \<open>Writing a key or a translation\<close>

text \<open>
  The lines of a \<^verbatim>\<open>msgid\<close> or a \<^verbatim>\<open>msgstr\<close>, which \<^verbatim>\<open>main.go\<close> writes out four times
  (458 to 471, 632 to 645, 846 to 859 and 869 to 882): a text with a newline becomes an
  empty first literal and one quoted line for each part.
\<close>

fun partLines :: "string list \<Rightarrow> string list" where
  "partLines [] = []"
| "partLines [part] = (if part \<noteq> [] then [[DQ] @ escapeString part @ [DQ]] else [])"
| "partLines (part # rest) =
     ([DQ] @ escapeString part @ [BSL, CHR ''n'', DQ]) # partLines rest"

definition literalLines :: "string \<Rightarrow> string \<Rightarrow> string list" where
  "literalLines keyword text =
     (if Contains text [NL]
      then (keyword @ '' '' @ [DQ, DQ]) # partLines (Split text NL)
      else [keyword @ '' '' @ [DQ] @ escapeString text @ [DQ]])"

section \<open>Incremental sync\<close>

subsection \<open>First pass: the keys of the target file\<close>

record existingScan = scan +
  existingMsgids :: "(string, bool) gomap"

definition existingInit :: existingScan where
  "existingInit = \<lparr>currentMsgid = [], currentMsgstr = [], inMsgid = False,
                   inMsgstr = False, existingMsgids = []\<rparr>"

text \<open>The body of the first loop of \<^verbatim>\<open>translatePoFile\<close> (main.go, 412 to 431).\<close>

definition existingLine :: "existingScan \<Rightarrow> string \<Rightarrow> existingScan option" where
  "existingLine st line =
     (let trimmed = TrimSpace line in
      if HasPrefix trimmed ''msgid '' then
        (case extractString (drop 6 trimmed) of
           None \<Rightarrow> None
         | Some k \<Rightarrow> Some (st\<lparr>currentMsgid := k, inMsgid := True, inMsgstr := False\<rparr>))
      else if HasPrefix trimmed ''msgstr '' then
        Some (st\<lparr>existingMsgids :=
                    (if currentMsgid st \<noteq> []
                     then AList.update (currentMsgid st) True (existingMsgids st)
                     else existingMsgids st),
                 inMsgid := False, inMsgstr := True\<rparr>)
      else if HasPrefix trimmed [DQ] \<and> inMsgid st then
        (case extractString trimmed of
           None \<Rightarrow> None
         | Some str \<Rightarrow> Some (st\<lparr>currentMsgid := currentMsgid st @ str\<rparr>))
      else if trimmed = [] \<or> HasPrefix trimmed ''#'' then
        Some (st\<lparr>inMsgid := False, inMsgstr := False\<rparr>)
      else Some st)"

text \<open>
  The keys to add (main.go, 433 to 439): \<open>order\<close> is the order in which the
  \<^verbatim>\<open>range\<close> over \<^verbatim>\<open>potEntries\<close> visits the keys.
\<close>

definition missingMsgids :: "string list \<Rightarrow> (string, bool) gomap \<Rightarrow> string list" where
  "missingMsgids order existing =
     filter (\<lambda>msgid. msgid \<noteq> [] \<and> map_of existing msgid \<noteq> Some True) order"

subsection \<open>Appending the missing entries\<close>

text \<open>The lines appended for one missing key (main.go, 449 to 472).\<close>

definition entryBlock :: "(string, POEntry) gomap \<Rightarrow> string \<Rightarrow> string list" where
  "entryBlock potEntries msgid =
     [[]] @
     (case map_of potEntries msgid of
        None \<Rightarrow> [''#: (added from POT)'']
      | Some entry \<Rightarrow>
          if Comments entry \<noteq> [] then Comments entry else [''#: (added from POT)'']) @
     literalLines ''msgid'' msgid @
     [''msgstr '' @ [DQ, DQ]]"

text \<open>The lines of the file after the missing entries are added (main.go, 443 to 473).\<close>

definition addMissing ::
  "(string, POEntry) gomap \<Rightarrow> string list \<Rightarrow> string list \<Rightarrow> string list" where
  "addMissing potEntries missing lines =
     (let lines = (if lines \<noteq> [] \<and> last lines \<noteq> [] then lines @ [[]] else lines)
      in lines @ concat (map (entryBlock potEntries) missing))"

text \<open>
  The first part of \<^verbatim>\<open>translatePoFile\<close> (main.go, 398 to 489): the world after it and
  the lines of the file as read again after the write, or the error returned.
\<close>

definition addPhase ::
  "env \<Rightarrow> string list \<Rightarrow> world \<Rightarrow> string \<Rightarrow> (string, POEntry) gomap \<Rightarrow>
   world \<times> (error + string list)" where
  "addPhase ev order w poFile potEntries =
     (case disk w poFile of
        None \<Rightarrow> (w, Inl OpenError)
      | Some content \<Rightarrow>
          (let lines = Split content NL in
           case forLines existingLine existingInit lines of
             None \<Rightarrow> (w, Inl Panic)
           | Some st \<Rightarrow>
               (let missing = missingMsgids order (existingMsgids st) in
                if missing \<noteq> [] then
                  (case WriteFile ev w poFile
                          (Join (addMissing potEntries missing lines) [NL]) of
                     None \<Rightarrow> (w, Inl WriteError)
                   | Some w1 \<Rightarrow>
                       (let w2 = w1\<lparr>events := events w1 @ [PrintAdded (length missing)]\<rparr>
                        in case disk w2 poFile of
                             None \<Rightarrow> (w2, Inl OpenError)
                           | Some again \<Rightarrow> (w2, Inr (Split again NL))))
                else (w, Inr lines))))"

subsection \<open>Second pass: the keys that need a translation\<close>

record needScan = scan +
  needsTranslation :: "string list"

definition needInit :: needScan where
  "needInit = \<lparr>currentMsgid = [], currentMsgstr = [], inMsgid = False,
               inMsgstr = False, needsTranslation = []\<rparr>"

text \<open>The body of the second loop of \<^verbatim>\<open>translatePoFile\<close> (main.go, 498 to 524).\<close>

definition needLine ::
  "(string, POEntry) gomap \<Rightarrow> needScan \<Rightarrow> string \<Rightarrow> needScan option" where
  "needLine potEntries st line =
     (let trimmed = TrimSpace line in
      if HasPrefix trimmed ''msgid '' then
        (case extractString (drop 6 trimmed) of
           None \<Rightarrow> None
         | Some k \<Rightarrow> Some (st\<lparr>currentMsgid := k, inMsgid := True, inMsgstr := False\<rparr>))
      else if HasPrefix trimmed ''msgstr '' then
        (case extractString (drop 7 trimmed) of
           None \<Rightarrow> None
         | Some v \<Rightarrow>
             Some (st\<lparr>currentMsgstr := v, inMsgid := False, inMsgstr := True,
                      needsTranslation :=
                        (if currentMsgid st \<noteq> [] \<and> v = [] \<and>
                            (case map_of potEntries (currentMsgid st) of
                               None \<Rightarrow> False | Some entry \<Rightarrow> Msgstr entry = [])
                         then needsTranslation st @ [currentMsgid st]
                         else needsTranslation st)\<rparr>))
      else if HasPrefix trimmed [DQ] \<and> inMsgid st then
        (case extractString trimmed of
           None \<Rightarrow> None
         | Some str \<Rightarrow> Some (st\<lparr>currentMsgid := currentMsgid st @ str\<rparr>))
      else if HasPrefix trimmed [DQ] \<and> inMsgstr st then
        (case extractString trimmed of
           None \<Rightarrow> None
         | Some str \<Rightarrow> Some (st\<lparr>currentMsgstr := currentMsgstr st @ str\<rparr>))
      else if trimmed = [] \<or> HasPrefix trimmed ''#'' then
        Some (st\<lparr>inMsgid := False, inMsgstr := False\<rparr>)
      else Some st)"

text \<open>
  A list of keys is in template order, in the words of the specification, when it lists
  its keys in the order in which they appear in the template.
\<close>

definition inTemplateOrder :: "string list \<Rightarrow> string list \<Rightarrow> bool" where
  "inTemplateOrder ks template = (ks = filter (\<lambda>k. k \<in> set ks) template)"

text \<open>
  The test of the second pass at a line (main.go, 505 to 515), and the state of the scan
  before line \<open>i\<close> of a file.
\<close>

definition asksTranslation :: "(string, POEntry) gomap \<Rightarrow> needScan \<Rightarrow> string \<Rightarrow> bool" where
  "asksTranslation potEntries st line =
     (HasPrefix (TrimSpace line) ''msgstr '' \<and> currentMsgid st \<noteq> [] \<and>
      extractString (drop 7 (TrimSpace line)) = Some [] \<and>
      (case map_of potEntries (currentMsgid st) of
         None \<Rightarrow> False | Some entry \<Rightarrow> Msgstr entry = []))"

definition scanFrom ::
  "(string, POEntry) gomap \<Rightarrow> needScan \<Rightarrow> string list \<Rightarrow> nat \<Rightarrow> needScan" where
  "scanFrom potEntries st0 lines i =
     (case forLines (needLine potEntries) st0 (take i lines) of
        None \<Rightarrow> needInit | Some st \<Rightarrow> st)"

subsection \<open>The translation loop\<close>

text \<open>
  The loop over the keys to translate (main.go, 551 to 579, and again 792 to 818):
  \<open>len\<close> is \<^verbatim>\<open>len(needsTranslation)\<close>. The flag is read at the head of every
  iteration and once more after every success.
\<close>

fun translateLoop ::
  "env \<Rightarrow> string \<Rightarrow> string \<Rightarrow> nat \<Rightarrow> nat \<Rightarrow> string list \<Rightarrow>
   (string, string) gomap \<Rightarrow> nat \<Rightarrow> world \<Rightarrow> (string, string) gomap \<times> nat \<times> world" where
  "translateLoop ev src tgt delay len [] translations translatedCount w =
     (translations, translatedCount, w)"
| "translateLoop ev src tgt delay len (msgid # rest) translations translatedCount w =
     (if interrupted ev (polls w) then (translations, translatedCount, w\<lparr>polls := Suc (polls w)\<rparr>)
      else
        (let w1 = w\<lparr>polls := Suc (polls w), events := events w @ [Translate msgid src tgt]\<rparr>
         in case backend ev msgid src tgt of
              None \<Rightarrow> translateLoop ev src tgt delay len rest translations translatedCount w1
            | Some translated \<Rightarrow>
                (let w2 = w1\<lparr>polls := Suc (polls w1),
                             events :=
                               (if \<not> interrupted ev (polls w1) \<and> Suc translatedCount < len
                                then events w1 @ [Sleep delay] else events w1)\<rparr>
                 in translateLoop ev src tgt delay len rest
                      (AList.update msgid translated translations) (Suc translatedCount) w2)))"

subsection \<open>Third pass: patching the translations into the file\<close>

record patchScan = scan +
  newLines :: "string list"
  skipNextMsgstr :: bool

definition patchInit :: patchScan where
  "patchInit = \<lparr>currentMsgid = [], currentMsgstr = [], inMsgid = False,
                inMsgstr = False, newLines = [], skipNextMsgstr = False\<rparr>"

text \<open>
  The look-ahead after a \<^verbatim>\<open>msgid\<close> line whose key has a translation (main.go, 607 to
  623), over the lines that follow it. The assignments \<^verbatim>\<open>i = j\<close> change the loop's
  copy of the index only: a \<^verbatim>\<open>range\<close> loop takes its next index from a counter of its
  own, so the outer loop visits the lines again that the look-ahead has copied.
\<close>

fun lookAhead :: "patchScan \<Rightarrow> string list \<Rightarrow> patchScan option" where
  "lookAhead st [] = Some st"
| "lookAhead st (next # rest) =
     (let nextTrimmed = TrimSpace next in
      if HasPrefix nextTrimmed ''msgstr '' then Some st
      else if HasPrefix nextTrimmed [DQ] \<and> inMsgid st then
        (case extractString nextTrimmed of
           None \<Rightarrow> None
         | Some str \<Rightarrow>
             lookAhead (st\<lparr>currentMsgid := currentMsgid st @ str,
                            newLines := newLines st @ [next]\<rparr>) rest)
      else if nextTrimmed \<noteq> [] \<and> \<not> HasPrefix nextTrimmed ''#'' then Some st
      else lookAhead (st\<lparr>newLines := newLines st @ [next]\<rparr>) rest)"

text \<open>
  The body of the third loop (main.go, 594 to 662) at one line: \<open>prev\<close> is the line
  before it (\<open>None\<close> at index 0) and \<open>rest\<close> are the lines after it.
\<close>

definition patchLine ::
  "(string, string) gomap \<Rightarrow> patchScan \<Rightarrow> string option \<Rightarrow> string \<Rightarrow> string list \<Rightarrow>
   patchScan option" where
  "patchLine translations st prev line rest =
     (let trimmed = TrimSpace line in
      if HasPrefix trimmed ''msgid '' then
        (case extractString (drop 6 trimmed) of
           None \<Rightarrow> None
         | Some k \<Rightarrow>
             (let st1 = st\<lparr>currentMsgid := k, inMsgid := True, inMsgstr := False,
                           newLines := newLines st @ [line]\<rparr>
              in if map_of translations k \<noteq> None
                 then lookAhead (st1\<lparr>skipNextMsgstr := True\<rparr>) rest
                 else Some st1))
      else if HasPrefix trimmed ''msgstr '' then
        (if skipNextMsgstr st then
           (let translation = (case map_of translations (currentMsgid st) of
                                 None \<Rightarrow> [] | Some t \<Rightarrow> t)
            in Some (st\<lparr>inMsgid := False, inMsgstr := True,
                        newLines := newLines st @ literalLines ''msgstr'' translation,
                        skipNextMsgstr := False\<rparr>))
         else Some (st\<lparr>inMsgid := False, inMsgstr := True,
                       newLines := newLines st @ [line]\<rparr>))
      else if HasPrefix trimmed [DQ] \<and> inMsgid st then
        (case extractString trimmed of
           None \<Rightarrow> None
         | Some str \<Rightarrow>
             Some (st\<lparr>currentMsgid := currentMsgid st @ str,
                      newLines := newLines st @ [line]\<rparr>))
      else
        (let st1 = (if \<not> (skipNextMsgstr st \<and> HasPrefix trimmed [DQ] \<and>
                           (case prev of None \<Rightarrow> False | Some p \<Rightarrow> Contains p ''msgstr''))
                    then st\<lparr>newLines := newLines st @ [line]\<rparr> else st)
         in if trimmed = [] \<or> HasPrefix trimmed ''#''
            then Some (st1\<lparr>inMsgid := False, inMsgstr := False\<rparr>)
            else Some st1))"

fun patchLoop ::
  "(string, string) gomap \<Rightarrow> patchScan \<Rightarrow> string option \<Rightarrow> string list \<Rightarrow>
   patchScan option" where
  "patchLoop translations st prev [] = Some st"
| "patchLoop translations st prev (line # rest) =
     (case patchLine translations st prev line rest of
        None \<Rightarrow> None
      | Some st' \<Rightarrow> patchLoop translations st' (Some line) rest)"

text \<open>
  The patch stated line by line. \<open>keyOf\<close> is the key written on a \<^verbatim>\<open>msgid\<close> line
  itself, \<open>translationAfter\<close> the translation recorded for the key on the line before.
  A file is \<open>adjacent\<close> for a translation map when every \<^verbatim>\<open>msgid\<close> line whose key
  has a translation is directly followed by a \<^verbatim>\<open>msgstr\<close> line, if by any line at
  all. \<open>patched\<close> replaces each \<^verbatim>\<open>msgstr\<close> line that directly follows such a
  \<^verbatim>\<open>msgid\<close> line by the lines of the translation and copies every other line.
\<close>

definition keyOf :: "string \<Rightarrow> string option" where
  "keyOf line =
     (if HasPrefix (TrimSpace line) ''msgid '' then extractString (drop 6 (TrimSpace line))
      else None)"

definition msgstrLine :: "string \<Rightarrow> bool" where
  "msgstrLine line = HasPrefix (TrimSpace line) ''msgstr ''"

definition translationAfter :: "(string, string) gomap \<Rightarrow> string option \<Rightarrow> string option" where
  "translationAfter translations prev =
     (case prev of
        None \<Rightarrow> None
      | Some p \<Rightarrow> (case keyOf p of None \<Rightarrow> None | Some k \<Rightarrow> map_of translations k))"

fun adjacent :: "(string, string) gomap \<Rightarrow> string list \<Rightarrow> bool" where
  "adjacent translations [] = True"
| "adjacent translations [l] = True"
| "adjacent translations (l # m # ls) =
     ((if translationAfter translations (Some l) \<noteq> None then msgstrLine m else True) \<and>
      adjacent translations (m # ls))"

fun patched :: "(string, string) gomap \<Rightarrow> string option \<Rightarrow> string list \<Rightarrow> string list" where
  "patched translations prev [] = []"
| "patched translations prev (l # ls) =
     (case (if msgstrLine l then translationAfter translations prev else None) of
        None \<Rightarrow> [l]
      | Some t \<Rightarrow> literalLines ''msgstr'' t) @
     patched translations (Some l) ls"

text \<open>
  The comments of an added entry: those of the template, or the placeholder comment when
  the template has none.
\<close>

definition addedComments :: "(string, POEntry) gomap \<Rightarrow> string \<Rightarrow> string list" where
  "addedComments potEntries msgid =
     (case map_of potEntries msgid of
        None \<Rightarrow> [''#: (added from POT)'']
      | Some entry \<Rightarrow>
          if Comments entry = [] then [''#: (added from POT)''] else Comments entry)"

text \<open>
  What holds between the lines of an adjacent file: the loop waits for a \<^verbatim>\<open>msgstr\<close>
  line exactly when the line before carries a translated key, and then holds that key.
\<close>

definition patchInv :: "(string, string) gomap \<Rightarrow> patchScan \<Rightarrow> string option \<Rightarrow> bool" where
  "patchInv translations st prev =
     (if skipNextMsgstr st
      then (\<exists>p. prev = Some p \<and> keyOf p = Some (currentMsgid st) \<and>
                map_of translations (currentMsgid st) \<noteq> None)
      else translationAfter translations prev = None)"

subsection \<open>The whole of incremental sync\<close>

text \<open>
  The second part of \<^verbatim>\<open>translatePoFile\<close> (main.go, 491 to 671), on the lines that the
  first part hands over.
\<close>

definition translatePhase ::
  "env \<Rightarrow> world \<Rightarrow> string \<Rightarrow> (string, POEntry) gomap \<Rightarrow> string \<Rightarrow> string \<Rightarrow> nat \<Rightarrow>
   string list \<Rightarrow> world \<times> (error + nat)" where
  "translatePhase ev w poFile potEntries srcLang targetLang delay lines =
     (case forLines (needLine potEntries) needInit lines of
        None \<Rightarrow> (w, Inl Panic)
      | Some st \<Rightarrow>
          if needsTranslation st = [] then (w, Inr 0)
          else
            (case translateLoop ev srcLang targetLang delay (length (needsTranslation st))
                    (needsTranslation st) [] 0 w of
               (translations, translatedCount, w1) \<Rightarrow>
                 if translatedCount = 0 then (w1, Inr 0)
                 else
                   (case patchLoop translations patchInit None lines of
                      None \<Rightarrow> (w1, Inl Panic)
                    | Some pst \<Rightarrow>
                        (case WriteFile ev w1 poFile (Join (newLines pst) [NL]) of
                           None \<Rightarrow> (w1, Inl WriteError)
                         | Some w2 \<Rightarrow> (w2, Inr translatedCount)))))"

text \<open>
  \<^verbatim>\<open>translatePoFile\<close> (main.go, 397 to 672). \<open>order\<close> is the order in which the
  \<^verbatim>\<open>range\<close> over \<^verbatim>\<open>potEntries\<close> at line 435 visits the keys.
\<close>

definition translatePoFile ::
  "env \<Rightarrow> string list \<Rightarrow> world \<Rightarrow> string \<Rightarrow> (string, POEntry) gomap \<Rightarrow> string \<Rightarrow> string \<Rightarrow>
   nat \<Rightarrow> world \<times> (error + nat)" where
  "translatePoFile ev order w poFile potEntries srcLang targetLang delay =
     (case addPhase ev order w poFile potEntries of
        (w1, Inl e) \<Rightarrow> (w1, Inl e)
      | (w1, Inr lines) \<Rightarrow>
          translatePhase ev w1 poFile potEntries srcLang targetLang delay lines)"

section \<open>Rewrite mode\<close>

record rewriteScan = scan +
  existingTranslations :: "(string, string) gomap"
  headerLines :: "string list"
  inHeader :: bool

definition rewriteInit :: rewriteScan where
  "rewriteInit = \<lparr>currentMsgid = [], currentMsgstr = [], inMsgid = False,
                  inMsgstr = False, existingTranslations = [], headerLines = [],
                  inHeader = True\<rparr>"

text \<open>The first half of the loop body of \<^verbatim>\<open>rewritePoFile\<close> (main.go, 693 to 741).\<close>

definition rewriteClassify :: "rewriteScan \<Rightarrow> string \<Rightarrow> rewriteScan option" where
  "rewriteClassify st line =
     (let trimmed = TrimSpace line in
      if HasPrefix trimmed ''msgid '' then
        (if trimmed = ''msgid '' @ [DQ, DQ] \<and> inHeader st
         then Some (st\<lparr>currentMsgid := [], inMsgid := True, inMsgstr := False\<rparr>)
         else
           (case extractString (drop 6 trimmed) of
              None \<Rightarrow> None
            | Some k \<Rightarrow>
                Some (st\<lparr>inHeader := False, currentMsgid := k, currentMsgstr := [],
                         inMsgid := True, inMsgstr := False\<rparr>)))
      else if HasPrefix trimmed ''msgstr '' then
        (if inHeader st \<and> currentMsgid st = []
         then Some (st\<lparr>inMsgid := False, inMsgstr := True\<rparr>)
         else
           (case extractString (drop 7 trimmed) of
              None \<Rightarrow> None
            | Some v \<Rightarrow> Some (st\<lparr>currentMsgstr := v, inMsgid := False, inMsgstr := True\<rparr>)))
      else if HasPrefix trimmed [DQ] then
        (if inMsgid st \<and> \<not> inHeader st then
           (case extractString trimmed of
              None \<Rightarrow> None
            | Some str \<Rightarrow> Some (st\<lparr>currentMsgid := currentMsgid st @ str\<rparr>))
         else if inMsgstr st \<and> \<not> inHeader st then
           (case extractString trimmed of
              None \<Rightarrow> None
            | Some str \<Rightarrow> Some (st\<lparr>currentMsgstr := currentMsgstr st @ str\<rparr>))
         else Some st)
      else if trimmed = [] then
        (let st1 = (if inHeader st \<and> currentMsgid st = [] then st\<lparr>inHeader := False\<rparr>
                    else st);
             st2 = (if \<not> inHeader st1 \<and> currentMsgid st1 \<noteq> []
                    then st1\<lparr>existingTranslations :=
                               AList.update (currentMsgid st1) (currentMsgstr st1)
                                 (existingTranslations st1),
                             currentMsgid := [], currentMsgstr := []\<rparr>
                    else st1)
         in Some (st2\<lparr>inMsgid := False, inMsgstr := False\<rparr>))
      else if HasPrefix trimmed ''#'' then
        (if inHeader st then Some (st\<lparr>headerLines := headerLines st @ [line]\<rparr>)
         else Some st)
      else Some st)"

text \<open>The second half: collecting the header lines (main.go, 743 to 752).\<close>

definition rewriteCollect :: "rewriteScan \<Rightarrow> string \<Rightarrow> rewriteScan" where
  "rewriteCollect st line =
     (let trimmed = TrimSpace line in
      if inHeader st \<and>
         (currentMsgid st = [] \<or> trimmed = [] \<or> HasPrefix trimmed ''msgid'' \<or>
          HasPrefix trimmed ''msgstr'' \<or> HasPrefix trimmed [DQ]) \<and>
         (\<not> HasPrefix trimmed ''#'' \<or> headerLines st = [] \<or> line \<noteq> last (headerLines st)) \<and>
         (line \<noteq> [] \<or> headerLines st = [] \<or> last (headerLines st) \<noteq> [])
      then st\<lparr>headerLines := headerLines st @ [line]\<rparr>
      else st)"

definition rewriteLine :: "rewriteScan \<Rightarrow> string \<Rightarrow> rewriteScan option" where
  "rewriteLine st line =
     (case rewriteClassify st line of
        None \<Rightarrow> None
      | Some st1 \<Rightarrow> Some (rewriteCollect st1 line))"

text \<open>The lines written for one key of the template (main.go, 838 to 882).\<close>

definition rewriteEntry ::
  "(string, POEntry) gomap \<Rightarrow> (string, string) gomap \<Rightarrow> (string, string) gomap \<Rightarrow>
   string \<Rightarrow> string list" where
  "rewriteEntry potEntries translations existing msgid =
     (let msgstr = (case map_of translations msgid of
                      Some newTrans \<Rightarrow> newTrans
                    | None \<Rightarrow>
                        (case map_of existing msgid of
                           Some existingTrans \<Rightarrow> existingTrans | None \<Rightarrow> []))
      in [[]] @
         (case map_of potEntries msgid of None \<Rightarrow> [] | Some potEntry \<Rightarrow> Comments potEntry) @
         literalLines ''msgid'' msgid @
         literalLines ''msgstr'' msgstr)"

text \<open>
  \<^verbatim>\<open>rewritePoFile\<close> (main.go, 676 to 904). The three \<^verbatim>\<open>range\<close> statements over maps
  visit the keys in the orders \<open>order1\<close> (line 762, over \<^verbatim>\<open>potEntries\<close>), \<open>order2\<close>
  (line 833, over \<^verbatim>\<open>potEntries\<close>) and \<open>order3\<close> (line 893, over
  \<^verbatim>\<open>existingTranslations\<close>).
\<close>

definition rewritePoFile ::
  "env \<Rightarrow> string list \<Rightarrow> string list \<Rightarrow> string list \<Rightarrow> world \<Rightarrow> string \<Rightarrow>
   (string, POEntry) gomap \<Rightarrow> string \<Rightarrow> string \<Rightarrow> nat \<Rightarrow> world \<times> (error + nat)" where
  "rewritePoFile ev order1 order2 order3 w poFile potEntries srcLang targetLang delay =
     (case disk w poFile of
        None \<Rightarrow> (w, Inl OpenError)
      | Some content \<Rightarrow>
          (case forLines rewriteLine rewriteInit (Split content NL) of
             None \<Rightarrow> (w, Inl Panic)
           | Some st \<Rightarrow>
               (let existing = (if currentMsgid st \<noteq> [] \<and> \<not> inHeader st
                                then AList.update (currentMsgid st) (currentMsgstr st)
                                       (existingTranslations st)
                                else existingTranslations st);
                    needs = filter (\<lambda>msgid. msgid \<noteq> [] \<and>
                                      (case map_of existing msgid of
                                         None \<Rightarrow> True
                                       | Some existingTrans \<Rightarrow> existingTrans = [])) order1
                in case (if needs \<noteq> []
                         then translateLoop ev srcLang targetLang delay (length needs) needs
                                [] 0 w
                         else ([], 0, w)) of
                     (translations, translatedCount, w1) \<Rightarrow>
                       (let header = headerLines st @
                                     (if headerLines st \<noteq> [] \<and> last (headerLines st) \<noteq> []
                                      then [[]] else []);
                            body = concat (map (rewriteEntry potEntries translations existing)
                                             (filter (\<lambda>msgid. msgid \<noteq> []) order2))
                        in case WriteFile ev w1 poFile (Join (header @ body) [NL]) of
                             None \<Rightarrow> (w1, Inl WriteError)
                           | Some w2 \<Rightarrow>
                               (let removedCount =
                                      length (filter (\<lambda>msgid. map_of potEntries msgid = None \<and>
                                                               msgid \<noteq> []) order3)
                                in (if 0 < removedCount
                                    then w2\<lparr>events := events w2 @ [PrintRemoved removedCount]\<rparr>
                                    else w2,
                                    Inr translatedCount))))))"

section \<open>Bootstrap of a new language\<close>

text \<open>
  The loop of \<^verbatim>\<open>copyPotToPo\<close> (main.go, 961 to 993) from line \<open>i\<close> on; the lines not
  yet visited are the argument, so that \<^verbatim>\<open>lines[i+1]\<close> is the head of \<open>rest\<close>.
\<close>

fun copyLines :: "env \<Rightarrow> string \<Rightarrow> bool \<Rightarrow> nat \<Rightarrow> string list \<Rightarrow> string list" where
  "copyLines ev targetLang inHdr i [] = []"
| "copyLines ev targetLang inHdr i (line # rest) =
     (if inHdr \<and> Contains line (DQ # ''Language:'') then
        ((DQ # ''Language: '') @ targetLang @ [BSL, CHR ''n'', DQ])
        # copyLines ev targetLang inHdr (Suc i) rest
      else if inHdr \<and> Contains line (DQ # ''Language-Team:'') then
        ((DQ # ''Language-Team: '') @ upper ev targetLang @ [BSL, CHR ''n'', DQ])
        # copyLines ev targetLang inHdr (Suc i) rest
      else if inHdr \<and> Contains line (DQ # ''PO-Revision-Date:'') then
        ((DQ # ''PO-Revision-Date: '') @ clock ev i @ [BSL, CHR ''n'', DQ])
        # copyLines ev targetLang inHdr (Suc i) rest
      else
        line # copyLines ev targetLang
                 (if inHdr \<and> 0 < i \<and> TrimSpace line = [] \<and> rest \<noteq> [] \<and>
                     \<not> HasPrefix (TrimSpace (hd rest)) [DQ] \<and> TrimSpace (hd rest) \<noteq> []
                  then False else inHdr)
                 (Suc i) rest)"

text \<open>\<^verbatim>\<open>copyPotToPo\<close> (main.go, 949 to 1002): the world after it and the error, if any.\<close>

definition copyPotToPo ::
  "env \<Rightarrow> world \<Rightarrow> string \<Rightarrow> string \<Rightarrow> string \<Rightarrow> world \<times> error option" where
  "copyPotToPo ev w potFile newPoFile targetLang =
     (case disk w potFile of
        None \<Rightarrow> (w, Some OpenError)
      | Some content \<Rightarrow>
          (case WriteFile ev w newPoFile
                  (Join (copyLines ev targetLang True 0 (Split content NL)) [NL]) of
             None \<Rightarrow> (w, Some WriteError)
           | Some w1 \<Rightarrow> (w1, None)))"

text \<open>
  The header of the template as \<^verbatim>\<open>copyPotToPo\<close> sees it: the loop leaves the header
  at a line, not the first of the file, that is blank and is followed by a line that is
  neither blank nor starts with a quote; line \<open>i\<close> is a header line when the loop has
  not left the header before it.
\<close>

definition leavesHeader :: "string list \<Rightarrow> nat \<Rightarrow> bool" where
  "leavesHeader lines j =
     (0 < j \<and> Suc j < length lines \<and> TrimSpace (lines ! j) = [] \<and>
      \<not> HasPrefix (TrimSpace (lines ! Suc j)) [DQ] \<and> TrimSpace (lines ! Suc j) \<noteq> [])"

definition headerLine :: "string list \<Rightarrow> nat \<Rightarrow> bool" where
  "headerLine lines i = list_all (\<lambda>j. \<not> leavesHeader lines j) [0..<i]"

text \<open>
  What line \<open>i\<close> of a clone is, stated line by line: a header line with the quoted
  field \<^verbatim>\<open>Language:\<close> becomes the line of the target code; otherwise, with
  \<^verbatim>\<open>Language-Team:\<close>, the line of the upper-case code; otherwise, with
  \<^verbatim>\<open>PO-Revision-Date:\<close>, the line of the time it is copied at; every other line is
  the line of the template.
\<close>

definition clonedLine :: "env \<Rightarrow> string \<Rightarrow> string list \<Rightarrow> nat \<Rightarrow> string" where
  "clonedLine ev targetLang lines i =
     (if headerLine lines i \<and> Contains (lines ! i) (DQ # ''Language:'') then
        (DQ # ''Language: '') @ targetLang @ [BSL, CHR ''n'', DQ]
      else if headerLine lines i \<and> Contains (lines ! i) (DQ # ''Language-Team:'') then
        (DQ # ''Language-Team: '') @ upper ev targetLang @ [BSL, CHR ''n'', DQ]
      else if headerLine lines i \<and> Contains (lines ! i) (DQ # ''PO-Revision-Date:'') then
        (DQ # ''PO-Revision-Date: '') @ clock ev i @ [BSL, CHR ''n'', DQ]
      else lines ! i)"

text \<open>
  How the add-language branch of \<^verbatim>\<open>main\<close> ends: the message it prints last. The exit
  code goes with it: 0 after \<open>Completed\<close>, 2 after a panic, 1 otherwise.
\<close>

datatype ending =
    BadLanguageCode
  | AlreadyExists string
  | CreateFailed error
  | TranslateFailed error
  | Crashed
  | Completed nat

text \<open>
  The add-language branch of \<^verbatim>\<open>main\<close> (main.go, 116 to 150), entered when
  \<^verbatim>\<open>addLang\<close> is not empty. \<^verbatim>\<open>os.Stat\<close> succeeds on the paths that are on disk.
\<close>

definition addLangMode ::
  "env \<Rightarrow> string list \<Rightarrow> world \<Rightarrow> string \<Rightarrow> string \<Rightarrow> string \<Rightarrow> string \<Rightarrow>
   (string, POEntry) gomap \<Rightarrow> string \<Rightarrow> nat \<Rightarrow> world \<times> nat \<times> ending" where
  "addLangMode ev order w directory domain addLang potFile potEntries finalSourceLang delay =
     (if length addLang \<noteq> 2 then (w, 1, BadLanguageCode)
      else
        (let newPoFile = joinPath ev directory (domain @ ''_'' @ addLang @ ''.po'') in
         if disk w newPoFile \<noteq> None then (w, 1, AlreadyExists newPoFile)
         else
           (case copyPotToPo ev w potFile newPoFile addLang of
              (w1, Some e) \<Rightarrow> (w1, 1, CreateFailed e)
            | (w1, None) \<Rightarrow>
                (case translatePoFile ev order w1 newPoFile potEntries finalSourceLang
                        addLang delay of
                   (w2, Inl Panic) \<Rightarrow> (w2, 2, Crashed)
                 | (w2, Inl e) \<Rightarrow> (w2, 1, TranslateFailed e)
                 | (w2, Inr translated) \<Rightarrow> (w2, 0, Completed translated)))))"

section \<open>The batch of target files\<close>

text \<open>
  The loop of \<^verbatim>\<open>main\<close> over the target files (main.go, 169 to 196). \<open>orders\<close> gives
  for each file the orders of the ranges over maps in the call made for it; the second
  component of the result is \<open>None\<close> when a call panicked.
\<close>

fun processFiles ::
  "env \<Rightarrow> bool \<Rightarrow> (string \<Rightarrow> string list \<times> string list \<times> string list) \<Rightarrow>
   (string, POEntry) gomap \<Rightarrow> string \<Rightarrow> nat \<Rightarrow> string list \<Rightarrow> nat \<Rightarrow> world \<Rightarrow>
   world \<times> nat option" where
  "processFiles ev rewriteMode orders potEntries finalSourceLang delay [] totalTranslated w =
     (w, Some totalTranslated)"
| "processFiles ev rewriteMode orders potEntries finalSourceLang delay (poFile # rest)
     totalTranslated w =
     (if interrupted ev (polls w) then (w\<lparr>polls := Suc (polls w)\<rparr>, Some totalTranslated)
      else
        (let w0 = w\<lparr>polls := Suc (polls w)\<rparr> in
         case getTargetLanguage (disk w0) poFile of
           Inl e \<Rightarrow>
             processFiles ev rewriteMode orders potEntries finalSourceLang delay rest
               totalTranslated w0
         | Inr targetLang \<Rightarrow>
             (case (if rewriteMode
                    then (case orders poFile of
                            (order1, order2, order3) \<Rightarrow>
                              rewritePoFile ev order1 order2 order3 w0 poFile potEntries
                                finalSourceLang targetLang delay)
                    else translatePoFile ev (fst (orders poFile)) w0 poFile potEntries
                           finalSourceLang targetLang delay) of
                (w1, Inl Panic) \<Rightarrow> (w1, None)
              | (w1, Inl e) \<Rightarrow>
                  processFiles ev rewriteMode orders potEntries finalSourceLang delay rest
                    totalTranslated w1
              | (w1, Inr translated) \<Rightarrow>
                  processFiles ev rewriteMode orders potEntries finalSourceLang delay rest
                    (totalTranslated + translated) w1)))"

text \<open>
  The batch branch of \<^verbatim>\<open>main\<close> (main.go, 152 to 203) with its exit code, on the files
  that \<^verbatim>\<open>findPoFiles\<close> returned.
\<close>

definition batchMode ::
  "env \<Rightarrow> bool \<Rightarrow> (string \<Rightarrow> string list \<times> string list \<times> string list) \<Rightarrow> world \<Rightarrow>
   (string, POEntry) gomap \<Rightarrow> string \<Rightarrow> nat \<Rightarrow> string list \<Rightarrow> world \<times> nat" where
  "batchMode ev rewriteMode orders w potEntries finalSourceLang delay poFiles =
     (if poFiles = [] then (w, 0)
      else
        (case processFiles ev rewriteMode orders potEntries finalSourceLang delay poFiles 0 w of
           (w1, None) \<Rightarrow> (w1, 2)
         | (w1, Some totalTranslated) \<Rightarrow>
             (w1\<lparr>polls := Suc (polls w1)\<rparr>, if interrupted ev (polls w1) then 130 else 0)))"

section \<open>Example catalogs\<close>

text \<open>A target file without a \<^verbatim>\<open>Language:\<close> field.\<close>

definition poDe :: string where
  "poDe = ''msgid '' @ [DQ, DQ, NL] @ ''msgstr '' @ [DQ, DQ, NL, NL] @
          ''msgid '' @ [DQ] @ ''Hello'' @ [DQ, NL] @ ''msgstr '' @ [DQ, DQ, NL]"

text \<open>A text between double quotes, and lines put together with a newline after each.\<close>

definition quoted :: "string \<Rightarrow> string" where
  "quoted s = [DQ] @ s @ [DQ]"

definition unlines :: "string list \<Rightarrow> string" where
  "unlines ls = concat (map (\<lambda>l. l @ [NL]) ls)"

text \<open>A template with the keys a, b and c, in this order, and what the parser makes of it.\<close>

definition potABC :: string where
  "potABC = unlines
     [''msgid '' @ quoted [], ''msgstr '' @ quoted [],
      quoted (''Language: en'' @ [BSL, CHR ''n'']), [],
      ''#: app.py:1'', ''msgid '' @ quoted ''a'', ''msgstr '' @ quoted [], [],
      ''#: app.py:2'', ''msgid '' @ quoted ''b'', ''msgstr '' @ quoted [], [],
      ''#: app.py:3'', ''msgid '' @ quoted ''c'', ''msgstr '' @ quoted []]"

definition entriesABC :: "(string, POEntry) gomap" where
  "entriesABC =
     [(''a'', \<lparr>Msgstr = [], Comments = [''#: app.py:1'']\<rparr>),
      (''b'', \<lparr>Msgstr = [], Comments = [''#: app.py:2'']\<rparr>),
      (''c'', \<lparr>Msgstr = [], Comments = [''#: app.py:3'']\<rparr>)]"

text \<open>A target file with the entries c, a and old, in this order; only c is untranslated.\<close>

definition poCAOld :: string where
  "poCAOld = unlines
     [''msgid '' @ quoted [], ''msgstr '' @ quoted [],
      quoted (''Language: de'' @ [BSL, CHR ''n'']), [],
      ''msgid '' @ quoted ''c'', ''msgstr '' @ quoted [], [],
      ''msgid '' @ quoted ''a'', ''msgstr '' @ quoted ''A'', [],
      ''msgid '' @ quoted ''old'', ''msgstr '' @ quoted ''O'']"

definition localesABC :: world where
  "localesABC = \<lparr>disk = [''l/x.pot'' \<mapsto> potABC, ''l/x_de.po'' \<mapsto> poCAOld],
                 events = [], polls = 0\<rparr>"

definition localesNew :: world where
  "localesNew = \<lparr>disk = [''l/x.pot'' \<mapsto> potABC], events = [], polls = 0\<rparr>"

text \<open>A template and a target file with one key of two lines, written on one line.\<close>

definition helloWorld :: string where
  "helloWorld = ''Hello'' @ [NL] @ ''World''"

definition halloWelt :: string where
  "halloWelt = ''Hallo'' @ [NL] @ ''Welt''"

definition potHello :: string where
  "potHello = unlines
     [''msgid '' @ quoted [], ''msgstr '' @ quoted [],
      quoted (''Language: en'' @ [BSL, CHR ''n'']), [],
      ''msgid '' @ quoted (''Hello'' @ [BSL, CHR ''n''] @ ''World''), ''msgstr '' @ quoted []]"

definition entriesHello :: "(string, POEntry) gomap" where
  "entriesHello = [(helloWorld, \<lparr>Msgstr = [], Comments = []\<rparr>)]"

definition poHello :: string where
  "poHello = unlines
     [''msgid '' @ quoted [], ''msgstr '' @ quoted [],
      quoted (''Language: de'' @ [BSL, CHR ''n'']), [],
      ''msgid '' @ quoted (''Hello'' @ [BSL, CHR ''n''] @ ''World''), ''msgstr '' @ quoted []]"

definition localesHello :: world where
  "localesHello = \<lparr>disk = [''l/x.pot'' \<mapsto> potHello, ''l/x_de.po'' \<mapsto> poHello],
                   events = [], polls = 0\<rparr>"

text \<open>Upper case on the letters a to z, as \<^verbatim>\<open>strings.ToUpper\<close> is on them.\<close>

definition asciiUpper :: "string \<Rightarrow> string" where
  "asciiUpper s =
     map (\<lambda>c. if 97 \<le> (of_char c :: int) \<and> (of_char c :: int) \<le> 122
              then char_of ((of_char c :: int) - 32) else c) s"

text \<open>
  Three surroundings: a backend that always fails, one that answers every call, and the
  latter with the flag set after the first success (the third read of the flag, at the
  head of the second iteration, is the first to return true).
\<close>

definition offline :: env where
  "offline = \<lparr>interrupted = (\<lambda>n. False), backend = (\<lambda>text src tgt. None),
              writable = (\<lambda>name. True), clock = (\<lambda>i. ''2026-01-01 00:00+0000''),
              upper = asciiUpper, joinPath = (\<lambda>dir name. dir @ ''/'' @ name)\<rparr>"

definition german :: env where
  "german = offline\<lparr>backend := (\<lambda>text src tgt.
               if text = helloWorld then Some halloWelt else Some (''de:'' @ text))\<rparr>"

definition stoppedAfterFirst :: env where
  "stoppedAfterFirst = german\<lparr>interrupted := (\<lambda>n. 2 \<le> n)\<rparr>"

text \<open>What to look at after a run: the texts sent to the backend and the lines of a file.\<close>

definition translateCalls :: "world \<Rightarrow> string list" where
  "translateCalls w =
     concat (map (\<lambda>e. case e of Translate text src tgt \<Rightarrow> [text] | _ \<Rightarrow> []) (events w))"

definition linesOf :: "world \<Rightarrow> string \<Rightarrow> string list" where
  "linesOf w name = (case disk w name of None \<Rightarrow> [] | Some content \<Rightarrow> Split content NL)"

definition keyLines :: "world \<Rightarrow> string \<Rightarrow> string list" where
  "keyLines w name = filter (\<lambda>l. HasPrefix l ''msgid '') (linesOf w name)"

text \<open>A target file that has only the key a, and the file after b and c are added.\<close>

definition poA :: string where
  "poA = unlines
     [''msgid '' @ quoted [], ''msgstr '' @ quoted [],
      quoted (''Language: de'' @ [BSL, CHR ''n'']), [],
      ''#: app.py:1'', ''msgid '' @ quoted ''a'', ''msgstr '' @ quoted ''A'']"

definition localesA :: world where
  "localesA = \<lparr>disk = [''l/x_de.po'' \<mapsto> poA], events = [], polls = 0\<rparr>"


definition poAdded :: string where
  "poAdded = Join
     [''msgid '' @ quoted [], ''msgstr '' @ quoted [],
      quoted (''Language: de'' @ [BSL, CHR ''n'']), [],
      ''#: app.py:1'', ''msgid '' @ quoted ''a'', ''msgstr '' @ quoted ''A'', [], [],
      ''#: app.py:2'', ''msgid '' @ quoted ''b'', ''msgstr '' @ quoted [], [],
      ''#: app.py:3'', ''msgid '' @ quoted ''c'', ''msgstr '' @ quoted []] [NL]"

text \<open>
  A template with all three fields, and a comment after the header that mentions
  \<^verbatim>\<open>"Language:\<close>; and its clone for the code de.
\<close>

definition potFull :: string where
  "potFull = unlines
     [''# Translation Template'', ''msgid '' @ quoted [], ''msgstr '' @ quoted [],
      quoted (''Project-Id-Version: Test 1.0'' @ [BSL, CHR ''n'']),
      quoted (''Language: en'' @ [BSL, CHR ''n'']),
      quoted (''Language-Team: English'' @ [BSL, CHR ''n'']),
      quoted (''PO-Revision-Date: 2024-01-01 12:00+0000'' @ [BSL, CHR ''n'']),
      [],
      ''#: test.py:10'', ''msgid '' @ quoted ''Hello'', ''msgstr '' @ quoted [],
      [],
      ''#. about '' @ quoted ''Language: names'', ''msgid '' @ quoted ''Language'',
      ''msgstr '' @ quoted []]"

definition poFull :: string where
  "poFull = unlines
     [''# Translation Template'', ''msgid '' @ quoted [], ''msgstr '' @ quoted [],
      quoted (''Project-Id-Version: Test 1.0'' @ [BSL, CHR ''n'']),
      quoted (''Language: de'' @ [BSL, CHR ''n'']),
      quoted (''Language-Team: DE'' @ [BSL, CHR ''n'']),
      quoted (''PO-Revision-Date: 2026-01-01 00:00+0000'' @ [BSL, CHR ''n'']),
      [],
      ''#: test.py:10'', ''msgid '' @ quoted ''Hello'', ''msgstr '' @ quoted [],
      [],
      ''#. about '' @ quoted ''Language: names'', ''msgid '' @ quoted ''Language'',
      ''msgstr '' @ quoted []]"

definition localesFull :: world where
  "localesFull = \<lparr>disk = [''l/x.pot'' \<mapsto> potFull], events = [], polls = 0\<rparr>"

text \<open>
  A template whose header has a \<^verbatim>\<open>Language-Team:\<close> line with the quoted text
  \<^verbatim>\<open>"Language: fr"\<close> inside its value, the two inner quotes escaped.
\<close>

definition potTeam :: string where
  "potTeam = unlines
     [''msgid '' @ quoted [], ''msgstr '' @ quoted [],
      quoted (''Language-Team: '' @ [BSL] @ quoted (''Language: fr'' @ [BSL]) @ '' team'' @
              [BSL, CHR ''n''])]"

definition localesTeam :: world where
  "localesTeam = \<lparr>disk = [''l/x.pot'' \<mapsto> potTeam], events = [], polls = 0\<rparr>"

text \<open>
  A template that starts with a comment and an empty line before the header entry.
\<close>

definition potComment :: string where
  "potComment = unlines
     [''# Translation Template'', [],
      ''msgid '' @ quoted [], ''msgstr '' @ quoted [],
      quoted (''Language: en'' @ [BSL, CHR ''n'']),
      quoted (''Language-Team: English'' @ [BSL, CHR ''n'']), [],
      ''#: test.py:10'', ''msgid '' @ quoted ''Hello'', ''msgstr '' @ quoted []]"

definition localesComment :: world where
  "localesComment = \<lparr>disk = [''l/x.pot'' \<mapsto> potComment], events = [], polls = 0\<rparr>"

text \<open>
  A template and a target file with the key of two lines written as an empty literal and
  two continuation lines, the form in which \<^verbatim>\<open>translatePoFile\<close> writes such a key
  itself (main.go, 458 to 468).
\<close>

definition potHelloLines :: string where
  "potHelloLines = unlines
     [''msgid '' @ quoted [], ''msgstr '' @ quoted [],
      quoted (''Language: en'' @ [BSL, CHR ''n'']), [],
      ''msgid '' @ quoted [], quoted (''Hello'' @ [BSL, CHR ''n'']), quoted ''World'',
      ''msgstr '' @ quoted []]"

definition poHelloLines :: string where
  "poHelloLines = unlines
     [''msgid '' @ quoted [], ''msgstr '' @ quoted [],
      quoted (''Language: de'' @ [BSL, CHR ''n'']), [],
      ''msgid '' @ quoted [], quoted (''Hello'' @ [BSL, CHR ''n'']), quoted ''World'',
      ''msgstr '' @ quoted []]"

definition localesHelloLines :: world where
  "localesHelloLines =
     \<lparr>disk = [''l/x.pot'' \<mapsto> potHelloLines, ''l/x_de.po'' \<mapsto> poHelloLines],
      events = [], polls = 0\<rparr>"

text \<open>
  A template with the key a and a target file with a comment line between the
  \<^verbatim>\<open>msgid\<close> line of a and its \<^verbatim>\<open>msgstr\<close> line.
\<close>

definition potNote :: string where
  "potNote = unlines
     [''msgid '' @ quoted [], ''msgstr '' @ quoted [],
      quoted (''Language: en'' @ [BSL, CHR ''n'']), [],
      ''#: app.py:1'', ''msgid '' @ quoted ''a'', ''msgstr '' @ quoted []]"

definition entriesNote :: "(string, POEntry) gomap" where
  "entriesNote = [(''a'', \<lparr>Msgstr = [], Comments = [''#: app.py:1'']\<rparr>)]"

definition poNote :: string where
  "poNote = unlines
     [''msgid '' @ quoted [], ''msgstr '' @ quoted [],
      quoted (''Language: de'' @ [BSL, CHR ''n'']), [],
      ''msgid '' @ quoted ''a'', ''# note'', ''msgstr '' @ quoted []]"

definition localesNote :: world where
  "localesNote = \<lparr>disk = [''l/x.pot'' \<mapsto> potNote, ''l/x_de.po'' \<mapsto> poNote],
                  events = [], polls = 0\<rparr>"

text \<open>The template with the keys a, b and c beside the target file that has only a.\<close>

definition localesAB :: world where
  "localesAB = \<lparr>disk = [''l/x.pot'' \<mapsto> potABC, ''l/x_de.po'' \<mapsto> poA],
                events = [], polls = 0\<rparr>"

text \<open>The target file with b and c added, patched with a translation for b and one for c.\<close>

definition addedBC :: "string list" where
  "addedBC = Split poAdded NL"

definition translationsBC :: "(string, string) gomap" where
  "translationsBC = [(''b'', ''de:b''), (''c'', halloWelt)]"

definition patchedBC :: "string list" where
  "patchedBC =
     [''msgid '' @ quoted [], ''msgstr '' @ quoted [],
      quoted (''Language: de'' @ [BSL, CHR ''n'']), [],
      ''#: app.py:1'', ''msgid '' @ quoted ''a'', ''msgstr '' @ quoted ''A'', [], [],
      ''#: app.py:2'', ''msgid '' @ quoted ''b'', ''msgstr '' @ quoted ''de:b'', [],
      ''#: app.py:3'', ''msgid '' @ quoted ''c'', ''msgstr '' @ quoted [],
      quoted (''Hallo'' @ [BSL, CHR ''n'']), quoted ''Welt'']"

text \<open>A template entry without comments.\<close>

definition entriesPlain :: "(string, POEntry) gomap" where
  "entriesPlain = [(''b'', \<lparr>Msgstr = [], Comments = []\<rparr>)]"

section \<open>Facts about the string functions\<close>

lemma Split_nonempty: "Split s c \<noteq> []"
  by (induction s) (auto split: list.splits)

lemma Split_notin: "c \<notin> set s \<Longrightarrow> Split s c = [s]"
  by (induction s) (auto split: list.splits)

lemma Split_in: "c \<in> set s \<Longrightarrow> 2 \<le> length (Split s c)"
  by (induction s) (auto split: list.splits simp: Split_nonempty Split_notin)

lemma Split_last: "last (Split s c) = rev (takeWhile (\<lambda>x. x \<noteq> c) (rev s))"
proof (induction s)
  case Nil
  then show ?case by simp
next
  case (Cons a s)
  show ?case
  proof (cases "a = c")
    case True
    then show ?thesis using Cons by (simp add: Split_nonempty takeWhile_tail)
  next
    case False
    note ac = this
    show ?thesis
    proof (cases "c \<in> set s")
      case True
      then obtain p q ps where sp: "Split s c = p # q # ps"
        using Split_in [of c s] by (cases "Split s c"; cases "tl (Split s c)") auto
      have "takeWhile (\<lambda>x. x \<noteq> c) (rev s @ [a]) = takeWhile (\<lambda>x. x \<noteq> c) (rev s)"
        using True by (intro takeWhile_append1[where x=c]) auto
      then show ?thesis using Cons sp ac by simp
    next
      case False
      then have "\<And>x. x \<in> set (rev s) \<Longrightarrow> x \<noteq> c" by auto
      then have tw: "takeWhile (\<lambda>x. x \<noteq> c) (rev s @ [a]) =
                       rev s @ takeWhile (\<lambda>x. x \<noteq> c) [a]"
        by (rule takeWhile_append2)
      have l: "last (Split (a # s) c) = a # s"
        using ac False by (simp add: Split_notin)
      have r: "rev (takeWhile (\<lambda>x. x \<noteq> c) (rev (a # s))) = a # s"
        unfolding rev.simps tw using ac by simp
      show ?thesis unfolding l r ..
    qed
  qed
qed


lemma HasPrefix_append: "HasPrefix s p \<Longrightarrow> HasPrefix (s @ t) p"
  by (induction s p rule: HasPrefix.induct) auto

lemma Contains_append: "Contains s p \<Longrightarrow> Contains (s @ t) p"
proof (induction s)
  case Nil
  then show ?case by (cases t) auto
next
  case (Cons a s)
  then show ?case using HasPrefix_append [of "a # s" p t] by auto
qed

lemma Contains_dropCR: "Contains (dropCR l) p \<Longrightarrow> Contains l p"
proof (cases "l \<noteq> [] \<and> last l = CR")
  case True
  then have "butlast l @ [CR] = l" using append_butlast_last_id [of l] by simp
  then show "Contains (dropCR l) p \<Longrightarrow> Contains l p"
    using True Contains_append [of "butlast l" p "[CR]"] by (simp add: dropCR_def)
next
  case False
  then show "Contains (dropCR l) p \<Longrightarrow> Contains l p" by (auto simp: dropCR_def)
qed

lemma scanLines_subset:
  "l \<in> set (fst (scanLines content)) \<Longrightarrow> \<exists>r \<in> set (Split content NL). l = dropCR r"
  by (auto simp: scanLines_def Let_def dest!: set_takeWhileD dest: in_set_butlastD
      split: if_splits)

lemma HasPrefix_split: "HasPrefix s p \<Longrightarrow> s = p @ drop (length p) s"
  by (induction s p rule: HasPrefix.induct) auto

lemma HasSuffix_split: "HasSuffix s p \<Longrightarrow> s = take (length s - length p) s @ p"
proof -
  assume "HasSuffix s p"
  then have "rev s = rev p @ drop (length (rev p)) (rev s)"
    unfolding HasSuffix_def by (rule HasPrefix_split)
  then have "rev (rev s) = rev (rev p @ drop (length p) (rev s))" by simp
  then show ?thesis by (simp add: drop_rev)
qed

lemma HasPrefix_iff: "HasPrefix s p \<longleftrightarrow> (\<exists>r. s = p @ r)"
proof
  assume "HasPrefix s p"
  then show "\<exists>r. s = p @ r" using HasPrefix_split by blast
next
  assume "\<exists>r. s = p @ r"
  then obtain r where "s = p @ r" ..
  moreover have "HasPrefix (p @ r) p" by (induction p) auto
  ultimately show "HasPrefix s p" by simp
qed

lemma msgid_not_msgstr: "HasPrefix t ''msgid '' \<Longrightarrow> \<not> HasPrefix t ''msgstr ''"
  by (auto simp: HasPrefix_iff)

lemma Contains_head: "Contains s (c # p) \<Longrightarrow> c \<in> set s"
  by (induction s) auto

lemma quote_no_space: "r \<in> set spaceRunes \<Longrightarrow> DQ \<notin> set r"
  by (auto simp: spaceRunes_def)

lemma leadSpace_split:
  assumes "leadSpace s \<noteq> 0"
  shows "\<exists>r \<in> set spaceRunes. s = r @ drop (leadSpace s) s"
proof (cases "find (HasPrefix s) spaceRunes")
  case None
  then show ?thesis using assms by (simp add: leadSpace_def)
next
  case (Some r)
  then have "HasPrefix s r" "r \<in> set spaceRunes" by (auto simp: find_Some_iff)
  then show ?thesis using Some HasPrefix_split [of s r] by (auto simp: leadSpace_def)
qed

lemma trailSpace_split:
  assumes "trailSpace s \<noteq> 0"
  shows "\<exists>r \<in> set spaceRunes. s = take (length s - trailSpace s) s @ r"
proof (cases "find (HasSuffix s) spaceRunes")
  case None
  then show ?thesis using assms by (simp add: trailSpace_def)
next
  case (Some r)
  then have "HasSuffix s r" "r \<in> set spaceRunes" by (auto simp: find_Some_iff)
  then show ?thesis using Some HasSuffix_split [of s r] by (auto simp: trailSpace_def)
qed

lemma TrimLeft_keeps_quote: "DQ \<in> set s \<Longrightarrow> DQ \<in> set (TrimLeft s)"
proof (induction s rule: TrimLeft.induct)
  case (1 s)
  show ?case
  proof (cases "leadSpace s = 0")
    case True
    then show ?thesis using 1 by (simp add: TrimLeft.simps)
  next
    case False
    then obtain r where r: "r \<in> set spaceRunes" "s = r @ drop (leadSpace s) s"
      using leadSpace_split by blast
    then have "DQ \<in> set (r @ drop (leadSpace s) s)" using "1.prems" by simp
    then have "DQ \<in> set (drop (leadSpace s) s)" using quote_no_space [OF r(1)] by simp
    then have "DQ \<in> set (TrimLeft (drop (leadSpace s) s))" using "1.IH" False by simp
    then show ?thesis using False by (subst TrimLeft.simps) simp
  qed
qed

lemma TrimRight_keeps_quote: "DQ \<in> set s \<Longrightarrow> DQ \<in> set (TrimRight s)"
proof (induction s rule: TrimRight.induct)
  case (1 s)
  show ?case
  proof (cases "trailSpace s = 0")
    case True
    then show ?thesis using 1 by (simp add: TrimRight.simps)
  next
    case False
    then obtain r where r: "r \<in> set spaceRunes" "s = take (length s - trailSpace s) s @ r"
      using trailSpace_split by blast
    then have "DQ \<in> set (take (length s - trailSpace s) s @ r)" using "1.prems" by simp
    then have "DQ \<in> set (take (length s - trailSpace s) s)"
      using quote_no_space [OF r(1)] by simp
    then have "DQ \<in> set (TrimRight (take (length s - trailSpace s) s))"
      using "1.IH" False by simp
    then show ?thesis using False by (subst TrimRight.simps) simp
  qed
qed

lemma quoted_field_not_blank: "Contains line (DQ # p) \<Longrightarrow> TrimSpace line \<noteq> []"
proof -
  assume "Contains line (DQ # p)"
  then have "DQ \<in> set line" by (rule Contains_head)
  then have "DQ \<in> set (TrimSpace line)"
    unfolding TrimSpace_def by (intro TrimRight_keeps_quote TrimLeft_keeps_quote)
  then show ?thesis by auto
qed

section \<open>The escaper does not invert the escape of a backslash\<close>

lemma ReplaceAll_byte:
  "ReplaceAll s [c] new = concat (map (\<lambda>x. if x = c then new else [x]) s)"
  by (induction s) auto

lemma escapeString_plain:
  "BSL \<notin> set s \<Longrightarrow> escapeString s = concat (map esc s)"
  by (induction s) (auto simp: escapeString_def ReplaceAll_byte esc_def)

lemma undo_newline:
  "BSL \<notin> set s \<Longrightarrow>
   ReplaceAll (concat (map esc s)) [BSL, CHR ''n''] [NL] = concat (map esc1 s)"
  by (induction s) (auto simp: esc_def esc1_def)

lemma undo_tab:
  "BSL \<notin> set s \<Longrightarrow>
   ReplaceAll (concat (map esc1 s)) [BSL, CHR ''t''] [TAB] = concat (map esc2 s)"
  by (induction s) (auto simp: esc1_def esc2_def)

lemma undo_quote:
  "BSL \<notin> set s \<Longrightarrow> ReplaceAll (concat (map esc2 s)) [BSL, DQ] [DQ] = s"
  by (induction s) (auto simp: esc2_def)

lemma TrimSpace_quoted: "TrimSpace ([DQ] @ s @ [DQ]) = [DQ] @ s @ [DQ]"
proof -
  have l: "leadSpace (DQ # s @ [DQ]) = 0"
    by (simp add: leadSpace_def spaceRunes_def)
  have "find (HasSuffix (DQ # s @ [DQ])) spaceRunes = None"
    by (simp add: HasSuffix_def spaceRunes_def)
  then have t: "trailSpace (DQ # s @ [DQ]) = 0" by (simp add: trailSpace_def)
  show ?thesis using l t by (simp add: TrimSpace_def TrimLeft.simps TrimRight.simps)
qed

text \<open>
  On a text without a backslash the round trip does return the text: of the four
  escapes only that of the backslash has no inverse in \<^verbatim>\<open>extractString\<close>.
\<close>

lemma extractString_escapeString_plain:
  assumes "BSL \<notin> set s"
  shows "extractString ([DQ] @ escapeString s @ [DQ]) = Some s"
proof -
  have q: "HasPrefix ([DQ] @ escapeString s @ [DQ]) [DQ]" "HasSuffix ([DQ] @ escapeString s @ [DQ]) [DQ]"
    by (simp_all add: HasSuffix_def)
  show ?thesis
    unfolding extractString_def TrimSpace_quoted
    using q assms
    by (simp add: Let_def escapeString_plain undo_newline undo_tab undo_quote)
qed

text \<open>
  C1. The claim: for every text of printable characters, backslash, quote, newline and
  tab, \<^verbatim>\<open>extractString\<close> applied to the quoted \<^verbatim>\<open>escapeString\<close> of the text is the
  text again, \<^verbatim>\<open>extractString\<close> undoing all four escapes. \<^verbatim>\<open>escapeString\<close> doubles a
  backslash, and \<^verbatim>\<open>extractString\<close> replaces only the escapes of newline, tab and
  quote: on the text of one backslash the round trip returns two backslashes.
\<close>

theorem extractString_escapeString_backslash:
  "extractString ([DQ] @ escapeString [BSL] @ [DQ]) = Some [BSL, BSL]"
  by code_simp

section \<open>The target language falls back to the file name\<close>

lemma scanLanguage_None_iff:
  "scanLanguage ls = None \<longleftrightarrow> (\<forall>l \<in> set ls. languageField l = [])"
  by (induction ls) auto

lemma name_fallback:
  "(let base = Base poFile; parts = Split base (CHR ''_'')
    in if 2 \<le> length parts then
         (let lang = TrimSuffix (last parts) ''.po''
          in if lang \<noteq> [] then Inr lang else Inl NoTargetLanguage)
       else Inl NoTargetLanguage) =
   (case languageFromName (Base poFile) of
      Some lang \<Rightarrow> Inr lang | None \<Rightarrow> Inl NoTargetLanguage)"
proof (cases "CHR ''_'' \<in> set (Base poFile)")
  case True
  then show ?thesis
    using Split_in [OF True] by (simp add: languageFromName_def Let_def Split_last)
next
  case False
  then show ?thesis by (simp add: languageFromName_def Let_def Split_notin)
qed

text \<open>
  C10. For a PO file that can be opened and none of whose lines contains the quoted
  field \<^verbatim>\<open>"Language:\<close>, \<^verbatim>\<open>getTargetLanguage\<close> returns what the file name yields: the
  text after the last underscore of the base name without the suffix \<^verbatim>\<open>.po\<close>, when
  that is not empty, and the error otherwise. For every file that can be opened, an
  error is returned only when the name yields no language and no scanned line yields one.
\<close>

theorem getTargetLanguage_from_name:
  assumes "fs poFile = Some content"
  shows "((\<forall>l \<in> set (Split content NL). \<not> Contains l (DQ # ''Language:'')) \<longrightarrow>
            getTargetLanguage fs poFile =
              (case languageFromName (Base poFile) of
                 Some lang \<Rightarrow> Inr lang | None \<Rightarrow> Inl NoTargetLanguage)) \<and>
         (\<forall>e. getTargetLanguage fs poFile = Inl e \<longrightarrow>
            languageFromName (Base poFile) = None \<and>
            (\<forall>l \<in> set (fst (scanLines content)). languageField l = []))"
proof (intro conjI impI allI)
  assume h: "\<forall>l \<in> set (Split content NL). \<not> Contains l (DQ # ''Language:'')"
  have "\<forall>l \<in> set (fst (scanLines content)). languageField l = []"
  proof
    fix l assume "l \<in> set (fst (scanLines content))"
    then obtain r where "r \<in> set (Split content NL)" "l = dropCR r"
      using scanLines_subset by blast
    then have "\<not> Contains l (DQ # ''Language:'')" using h Contains_dropCR by blast
    then show "languageField l = []" by (simp add: languageField_def)
  qed
  then have "scanLanguage (fst (scanLines content)) = None"
    by (simp add: scanLanguage_None_iff)
  then show "getTargetLanguage fs poFile =
               (case languageFromName (Base poFile) of
                  Some lang \<Rightarrow> Inr lang | None \<Rightarrow> Inl NoTargetLanguage)"
    using assms name_fallback [of poFile] by (simp add: getTargetLanguage_def)
next
  fix e assume e: "getTargetLanguage fs poFile = Inl e"
  show "languageFromName (Base poFile) = None"
  proof (cases "scanLanguage (fst (scanLines content))")
    case None
    then show ?thesis using e assms name_fallback [of poFile]
      by (auto simp: getTargetLanguage_def split: option.splits)
  next
    case (Some a)
    then show ?thesis using e assms by (simp add: getTargetLanguage_def)
  qed
next
  fix e assume e: "getTargetLanguage fs poFile = Inl e"
  show "\<forall>l \<in> set (fst (scanLines content)). languageField l = []"
  proof (cases "scanLanguage (fst (scanLines content))")
    case None
    then show ?thesis by (simp add: scanLanguage_None_iff)
  next
    case (Some a)
    then show ?thesis using e assms by (simp add: getTargetLanguage_def)
  qed
qed

lemma poDe_no_language: "\<forall>l \<in> set (Split poDe NL). \<not> Contains l (DQ # ''Language:'')"
  by (simp add: poDe_def)

lemma default_de_name: "languageFromName (Base ''loc/default_de.po'') = Some ''de''"
  by code_simp

text \<open>
  The theorem at the file \<^verbatim>\<open>loc/default_de.po\<close> without a \<^verbatim>\<open>Language:\<close> field: the
  language is de.
\<close>

theorem getTargetLanguage_from_name_witness:
  "[''loc/default_de.po'' \<mapsto> poDe] ''loc/default_de.po'' = Some poDe \<and>
   list_all (\<lambda>l. \<not> Contains l (DQ # ''Language:'')) (Split poDe NL) \<and>
   getTargetLanguage [''loc/default_de.po'' \<mapsto> poDe] ''loc/default_de.po'' = Inr ''de''"
  using getTargetLanguage_from_name
          [of "[''loc/default_de.po'' \<mapsto> poDe]" "''loc/default_de.po''" poDe]
        poDe_no_language default_de_name
  by (simp add: list_all_iff)

section \<open>Rewrite mode writes the entries in the order of the range\<close>

text \<open>
  The removed count does not depend on the order of the range: it is the number of
  non-empty keys of the old file's translations that the template lacks.
\<close>

lemma removedCount_any_order:
  assumes "rangeOrder existing order3"
  shows "length (filter (\<lambda>msgid. map_of potEntries msgid = None \<and> msgid \<noteq> []) order3) =
         card {msgid \<in> set (map fst existing). map_of potEntries msgid = None \<and> msgid \<noteq> []}"
proof -
  have "distinct (filter (\<lambda>msgid. map_of potEntries msgid = None \<and> msgid \<noteq> []) order3)"
    using assms by (simp add: rangeOrder_def)
  then have "length (filter (\<lambda>msgid. map_of potEntries msgid = None \<and> msgid \<noteq> []) order3) =
             card (set (filter (\<lambda>msgid. map_of potEntries msgid = None \<and> msgid \<noteq> []) order3))"
    by (rule distinct_card [symmetric])
  also have "set (filter (\<lambda>msgid. map_of potEntries msgid = None \<and> msgid \<noteq> []) order3) =
             {msgid \<in> set (map fst existing). map_of potEntries msgid = None \<and> msgid \<noteq> []}"
    using assms by (auto simp: rangeOrder_def)
  finally show ?thesis .
qed

text \<open>
  C3. The claim: in rewrite mode the entry order of the output is the entry order of the
  template, no key foreign to the template is written, and the removed count is the
  number of non-header keys of the old file that the template lacks. The output loop
  (main.go, 833) ranges over the map \<^verbatim>\<open>potEntries\<close>, under the comment "Add all
  entries from POT in order"; a Go map has no order. On the template a, b, c and the
  old file c, a, old, when the range visits c, a, b the file is written with the keys in
  the order c, a, b.
\<close>

theorem rewritePoFile_order_of_range:
  "parsePotFile (disk localesABC) ''l/x.pot'' = Inr (entriesABC, ''en'') \<and>
   templateOrder (disk localesABC) ''l/x.pot'' = [''a'', ''b'', ''c''] \<and>
   rangeOrder entriesABC [''c'', ''a'', ''b''] \<and>
   (case rewritePoFile offline [''c'', ''a'', ''b''] [''c'', ''a'', ''b''] [''c'', ''a'', ''old'']
           localesABC ''l/x_de.po'' entriesABC ''en'' ''de'' 1 of
      (w, r) \<Rightarrow> (keyLines w ''l/x_de.po'', r)) =
   ([''msgid '' @ quoted [], ''msgid '' @ quoted ''c'', ''msgid '' @ quoted ''a'',
     ''msgid '' @ quoted ''b''], Inr 0)"
  by code_simp

section \<open>A second run of incremental sync translates again\<close>

text \<open>
  When no key is missing and no entry needs a translation, a run changes nothing and
  returns zero.
\<close>

lemma translatePoFile_nothing_to_do:
  assumes "disk w poFile = Some content"
    and "forLines existingLine existingInit (Split content NL) = Some st1"
    and "missingMsgids order (existingMsgids st1) = []"
    and "forLines (needLine potEntries) needInit (Split content NL) = Some st2"
    and "needsTranslation st2 = []"
  shows "translatePoFile ev order w poFile potEntries srcLang targetLang delay = (w, Inr 0)"
  using assms by (simp add: translatePoFile_def addPhase_def translatePhase_def)

text \<open>
  C5. The claim: a second run of incremental sync on its own output adds nothing and
  translates nothing. The second pass (main.go, 505 to 515) decides that an entry needs
  a translation at its \<^verbatim>\<open>msgstr\<close> line, before the continuation lines of the value are
  read. A translation of two lines is written as an empty \<^verbatim>\<open>msgstr\<close> literal and two
  continuation lines: the second run calls the backend for the same key again, reports
  one translation, and leaves the old continuation lines behind the new ones.
\<close>

theorem translatePoFile_second_run_translates_again:
  "parsePotFile (disk localesHello) ''l/x.pot'' = Inr (entriesHello, ''en'') \<and>
   (case translatePoFile german [helloWorld] localesHello ''l/x_de.po'' entriesHello
           ''en'' ''de'' 1 of
      (w1, r1) \<Rightarrow>
        (case translatePoFile german [helloWorld] w1 ''l/x_de.po'' entriesHello
                ''en'' ''de'' 1 of
           (w2, r2) \<Rightarrow>
             (r1, translateCalls w1, drop 4 (linesOf w1 ''l/x_de.po''),
              r2, translateCalls w2, drop 4 (linesOf w2 ''l/x_de.po'')))) =
   (Inr 1, [helloWorld],
    [''msgid '' @ quoted (''Hello'' @ [BSL, CHR ''n''] @ ''World''), ''msgstr '' @ quoted [],
     quoted (''Hallo'' @ [BSL, CHR ''n'']), quoted ''Welt'', []],
    Inr 1, [helloWorld, helloWorld],
    [''msgid '' @ quoted (''Hello'' @ [BSL, CHR ''n''] @ ''World''), ''msgstr '' @ quoted [],
     quoted (''Hallo'' @ [BSL, CHR ''n'']), quoted ''Welt'',
     quoted (''Hallo'' @ [BSL, CHR ''n'']), quoted ''Welt'', []])"
  by code_simp

section \<open>An interrupted bootstrap exits with code 0\<close>

text \<open>
  Once the flag is read as set at the head of the loop, the loop ends without a call of
  the backend.
\<close>

lemma translateLoop_flag_set:
  "interrupted ev (polls w) \<Longrightarrow>
   translateLoop ev src tgt delay len keys tr c w =
     (tr, c, if keys = [] then w else w\<lparr>polls := Suc (polls w)\<rparr>)"
  by (cases keys) auto

text \<open>
  In a batch run the flag set after the first success ends in the exit with code 130.
\<close>

lemma batchMode_interrupted_exits_130:
  "(case batchMode stoppedAfterFirst False (\<lambda>poFile. ([''a'', ''b'', ''c''], [], []))
           localesABC entriesABC ''en'' 1 [''l/x_de.po''] of
      (w, code) \<Rightarrow> (code, translateCalls w)) =
   (130, [''c''])"
  by code_simp

text \<open>
  C6. The claim: once the flag is set after k successes, no further call is made, the k
  translations are applied, the run reports k, and the process exits with the interrupt
  exit code. In a run with \<^verbatim>\<open>--add-lang\<close> the flag set after the first success stops
  the loop after one call, and \<^verbatim>\<open>main\<close> then reports completion and exits with code 0
  (main.go, 148 to 149): only the batch loop ends in the exit with code 130.
\<close>

theorem addLangMode_interrupted_exits_zero:
  "(case addLangMode stoppedAfterFirst [''a'', ''b'', ''c''] localesNew ''l'' ''x'' ''de''
           ''l/x.pot'' entriesABC ''en'' 1 of
      (w, code, ending) \<Rightarrow> (code, ending, translateCalls w)) =
   (0, Completed 1, [''a''])"
  by code_simp

section \<open>Bootstrap refuses an existing destination\<close>

text \<open>
  C8. When the language code has two bytes and the destination path is on disk, the
  add-language branch ends with the message that the file already exists and exit code
  1, and the world is the one it started in: nothing is written, the destination keeps
  its content.
\<close>

theorem addLangMode_destination_exists:
  assumes "length addLang = 2"
    and "disk w (joinPath ev directory (domain @ ''_'' @ addLang @ ''.po'')) = Some old"
  shows "addLangMode ev order w directory domain addLang potFile potEntries
           finalSourceLang delay =
         (w, 1, AlreadyExists (joinPath ev directory (domain @ ''_'' @ addLang @ ''.po'')))"
  using assms by (simp add: addLangMode_def)

text \<open>The theorem at a directory that already holds \<^verbatim>\<open>x_de.po\<close>.\<close>

theorem addLangMode_destination_exists_witness:
  "length ''de'' = 2 \<and>
   disk localesABC (joinPath german ''l'' (''x'' @ ''_'' @ ''de'' @ ''.po'')) = Some poCAOld \<and>
   addLangMode german [''a'', ''b'', ''c''] localesABC ''l'' ''x'' ''de'' ''l/x.pot''
     entriesABC ''en'' 1 =
   (localesABC, 1, AlreadyExists ''l/x_de.po'')"
proof -
  have len: "length ''de'' = 2" by simp
  have there: "disk localesABC (joinPath german ''l'' (''x'' @ ''_'' @ ''de'' @ ''.po'')) =
                 Some poCAOld"
    by (simp add: localesABC_def german_def offline_def)
  have path: "joinPath german ''l'' (''x'' @ ''_'' @ ''de'' @ ''.po'') = ''l/x_de.po''"
    by (simp add: german_def offline_def)
  show ?thesis
    using addLangMode_destination_exists [OF len there, of "[''a'', ''b'', ''c'']"
            "''l/x.pot''" entriesABC "''en''" 1] len there path
    by simp
qed

section \<open>The added entries are on disk before the first call of the backend\<close>











section \<open>Bootstrap and the header fields of the template\<close>

lemma headerLine_Suc:
  "headerLine lines (Suc i) = (headerLine lines i \<and> \<not> leavesHeader lines i)"
  by (simp add: headerLine_def)

lemma leavesHeader_at:
  "leavesHeader (pre @ line # rest) (length pre) =
     (0 < length pre \<and> TrimSpace line = [] \<and> rest \<noteq> [] \<and>
      \<not> HasPrefix (TrimSpace (hd rest)) [DQ] \<and> TrimSpace (hd rest) \<noteq> [])"
  by (cases rest) (auto simp: leavesHeader_def nth_append)

lemma copyLines_from:
  "copyLines ev targetLang (headerLine (pre @ rest) (length pre)) (length pre) rest =
   map (clonedLine ev targetLang (pre @ rest)) [length pre..<length pre + length rest]"
proof (induction rest arbitrary: pre)
  case Nil
  then show ?case by simp
next
  case (Cons line rest)
  let ?full = "pre @ line # rest"
  let ?k = "length pre"
  have full: "?full = (pre @ [line]) @ rest" by simp
  have at: "?full ! ?k = line" by simp
  have "[?k..<?k + Suc (length rest)] = ?k # [Suc ?k..<?k + Suc (length rest)]"
    by (rule upt_conv_Cons) simp
  then have upt: "[?k..<?k + length (line # rest)] = ?k # [Suc ?k..<Suc ?k + length rest]"
    by (simp del: upt_Suc)
  have IH: "copyLines ev targetLang (headerLine ?full (Suc ?k)) (Suc ?k) rest =
            map (clonedLine ev targetLang ?full) [Suc ?k..<Suc ?k + length rest]"
    using Cons.IH [of "pre @ [line]"] by simp
  have stay: "TrimSpace line \<noteq> [] \<Longrightarrow> headerLine ?full (Suc ?k) = headerLine ?full ?k"
    by (simp add: headerLine_Suc leavesHeader_at del: append.simps)
  have step: "headerLine ?full (Suc ?k) =
      (if headerLine ?full ?k \<and> 0 < ?k \<and> TrimSpace line = [] \<and> rest \<noteq> [] \<and>
          \<not> HasPrefix (TrimSpace (hd rest)) [DQ] \<and> TrimSpace (hd rest) \<noteq> []
       then False else headerLine ?full ?k)"
    by (auto simp: headerLine_Suc leavesHeader_at simp del: append.simps)
  show ?case
  proof (cases "headerLine ?full ?k \<and>
                (Contains line (DQ # ''Language:'') \<or> Contains line (DQ # ''Language-Team:'') \<or>
                 Contains line (DQ # ''PO-Revision-Date:''))")
    case True
    then have "TrimSpace line \<noteq> []" using quoted_field_not_blank by blast
    then have "headerLine ?full (Suc ?k) = headerLine ?full ?k" by (rule stay)
    then show ?thesis
      unfolding upt using True IH at
      by (auto simp: clonedLine_def simp del: upt_Suc)
  next
    case False
    then show ?thesis
      unfolding upt using IH at step
      by (auto simp: clonedLine_def simp del: upt_Suc)
  qed
qed

lemma copyLines_clonedLine:
  "copyLines ev targetLang True 0 lines =
   map (clonedLine ev targetLang lines) [0..<length lines]"
  using copyLines_from [of ev targetLang "[]" lines] by (simp add: headerLine_def)

text \<open>
  The copy loop line by line. When the template can be read and the destination written,
  \<^verbatim>\<open>copyPotToPo\<close> writes a file with as many lines as the template has, and line
  \<open>i\<close> of it is \<open>clonedLine\<close> at \<open>i\<close>: while the flag \<^verbatim>\<open>inHeader\<close> of the loop is
  set, the first of the three tests that applies decides the line, in the order
  \<^verbatim>\<open>Language:\<close>, \<^verbatim>\<open>Language-Team:\<close>, \<^verbatim>\<open>PO-Revision-Date:\<close>; every other line is
  copied unchanged.
\<close>

lemma copyPotToPo_line_by_line:
  assumes "disk w potFile = Some content" and "writable ev newPoFile"
  shows "\<exists>w'. copyPotToPo ev w potFile newPoFile targetLang = (w', None) \<and>
           disk w' newPoFile =
             Some (Join (map (clonedLine ev targetLang (Split content NL))
                           [0..<length (Split content NL)]) [NL])"
  using assms by (simp add: copyPotToPo_def WriteFile_def copyLines_clonedLine)

text \<open>
  At a template with all three fields and a comment behind the header that mentions
  \<^verbatim>\<open>"Language:\<close>, the three header lines are rewritten and the comment is not.
\<close>

lemma copyPotToPo_three_fields:
  "disk localesFull ''l/x.pot'' = Some potFull \<and> writable offline ''l/x_de.po'' \<and>
   snd (copyPotToPo offline localesFull ''l/x.pot'' ''l/x_de.po'' ''de'') = None \<and>
   disk (fst (copyPotToPo offline localesFull ''l/x.pot'' ''l/x_de.po'' ''de'')) ''l/x_de.po'' =
     Some poFull"
proof -
  have h1: "disk localesFull ''l/x.pot'' = Some potFull" by (simp add: localesFull_def)
  have h2: "writable offline ''l/x_de.po''" by (simp add: offline_def)
  have v: "Join (map (clonedLine offline ''de'' (Split potFull NL))
                  [0..<length (Split potFull NL)]) [NL] = poFull"
    by code_simp
  from copyPotToPo_line_by_line [OF h1 h2, of "''de''"] v
  have "snd (copyPotToPo offline localesFull ''l/x.pot'' ''l/x_de.po'' ''de'') = None \<and>
        disk (fst (copyPotToPo offline localesFull ''l/x.pot'' ''l/x_de.po'' ''de''))
          ''l/x_de.po'' = Some poFull"
    by auto
  then show ?thesis using h1 h2 by simp
qed

text \<open>
  A template with a comment and an empty line before the header entry: the empty line
  ends the header for the loop (main.go, 984 to 989), no header line is rewritten, and
  the clone for the code de is the template itself, \<^verbatim>\<open>Language: en\<close> included.
\<close>

lemma copyPotToPo_header_after_comment:
  "Contains potComment (DQ # ''Language:'') \<and>
   (case copyPotToPo offline localesComment ''l/x.pot'' ''l/x_de.po'' ''de'' of
      (w, err) \<Rightarrow> (err, disk w ''l/x_de.po'')) =
   (None, Some potComment)"
  by code_simp

text \<open>
  C7. The claim: the clone is the template line for line but for three rewrites; any
  header line carrying \<^verbatim>\<open>Language-Team:\<close> is rewritten to the upper-case target code.
  The three tests are a chain in which the test for \<^verbatim>\<open>"Language:\<close> comes first
  (main.go, 965 to 968). A header line that carries \<^verbatim>\<open>"Language-Team:\<close> and, within its
  value, the quoted text \<^verbatim>\<open>"Language:\<close> is replaced by the line of the target code:
  the template contains \<^verbatim>\<open>"Language-Team:\<close> and the clone for the code de has no line
  \<^verbatim>\<open>"Language-Team: DE\n"\<close>, which is what \<^verbatim>\<open>TestCopyPotToPo\<close> checks for every such
  template.
\<close>

theorem copyPotToPo_team_line_lost:
  "Contains potTeam (DQ # ''Language-Team:'') \<and>
   (case copyPotToPo offline localesTeam ''l/x.pot'' ''l/x_de.po'' ''de'' of
      (w, err) \<Rightarrow>
        (err, linesOf w ''l/x_de.po'',
         case disk w ''l/x_de.po'' of
           None \<Rightarrow> False
         | Some content \<Rightarrow>
             Contains content
               (quoted (''Language-Team: '' @ upper offline ''de'' @ [BSL, CHR ''n''])))) =
   (None,
    [''msgid '' @ quoted [], ''msgstr '' @ quoted [],
     quoted (''Language: de'' @ [BSL, CHR ''n'']), []],
    False)"
  by code_simp

section \<open>The order of the keys to add and to translate\<close>

lemma needLine_step:
  "needLine P st0 x = Some st1 \<Longrightarrow>
   needsTranslation st1 =
     needsTranslation st0 @ (if asksTranslation P st0 x then [currentMsgid st0] else [])"
  by (auto simp: needLine_def asksTranslation_def Let_def msgid_not_msgstr
      split: if_splits option.splits)

lemma need_scan_from:
  "forLines (needLine P) st0 xs = Some st \<Longrightarrow>
   needsTranslation st =
     needsTranslation st0 @
     map (\<lambda>i. currentMsgid (scanFrom P st0 xs i))
       (filter (\<lambda>i. asksTranslation P (scanFrom P st0 xs i) (xs ! i)) [0..<length xs])"
proof (induction xs arbitrary: st0)
  case Nil
  then show ?case by simp
next
  case (Cons x xs)
  from Cons.prems obtain st1 where
    st1: "needLine P st0 x = Some st1" and rest: "forLines (needLine P) st1 xs = Some st"
    by (auto split: option.splits)
  have upt: "[0..<length (x # xs)] = 0 # map Suc [0..<length xs]"
    by (simp add: upt_conv_Cons map_Suc_upt del: upt_Suc)
  have zero: "scanFrom P st0 (x # xs) 0 = st0" by (simp add: scanFrom_def)
  have shift: "\<And>i. scanFrom P st0 (x # xs) (Suc i) = scanFrom P st1 xs i"
    using st1 by (simp add: scanFrom_def)
  show ?case
    unfolding upt
    using Cons.IH [OF rest] needLine_step [OF st1]
    by (simp add: zero shift filter_map comp_def)
qed

text \<open>
  The second pass lists the keys to translate in the order of the lines it is given: by
  increasing index of the \<^verbatim>\<open>msgstr\<close> line at which it finds the entry untranslated,
  each with the key that the scan holds at that line. The keys to add are the non-empty
  keys of the template that the target file lacks, each once, in the order that the
  range over the map takes.
\<close>

lemma needsTranslation_in_file_order:
  assumes "rangeOrder potEntries order"
    and "forLines (needLine potEntries) needInit lines = Some st"
  shows "needsTranslation st =
           map (\<lambda>i. currentMsgid (scanFrom potEntries needInit lines i))
             (filter (\<lambda>i. asksTranslation potEntries (scanFrom potEntries needInit lines i)
                             (lines ! i))
                [0..<length lines]) \<and>
         distinct (missingMsgids order existing) \<and>
         set (missingMsgids order existing) =
           {k \<in> set (map fst potEntries). k \<noteq> [] \<and> map_of existing k \<noteq> Some True}"
proof (intro conjI)
  show "needsTranslation st =
           map (\<lambda>i. currentMsgid (scanFrom potEntries needInit lines i))
             (filter (\<lambda>i. asksTranslation potEntries (scanFrom potEntries needInit lines i)
                             (lines ! i))
                [0..<length lines])"
    using need_scan_from [OF assms(2)] by (simp add: needInit_def)
  show "distinct (missingMsgids order existing)"
    using assms(1) by (simp add: missingMsgids_def rangeOrder_def)
  show "set (missingMsgids order existing) =
           {k \<in> set (map fst potEntries). k \<noteq> [] \<and> map_of existing k \<noteq> Some True}"
    using assms(1) by (auto simp: missingMsgids_def rangeOrder_def)
qed

text \<open>
  On the template a, b, c and the target file with the entries c, a, old, of which c is
  untranslated, b is added at the end and the backend is called for c first and then
  for b: the calls follow the lines of the file.
\<close>

lemma translate_calls_follow_file:
  "templateOrder (disk localesABC) ''l/x.pot'' = [''a'', ''b'', ''c''] \<and>
   translateCalls (fst (translatePoFile german [''a'', ''b'', ''c''] localesABC ''l/x_de.po''
                          entriesABC ''en'' ''de'' 1)) = [''c'', ''b''] \<and>
   \<not> inTemplateOrder [''c'', ''b''] [''a'', ''b'', ''c'']"
  by code_simp

text \<open>
  The keys to add come in the order of the range over the map, which Go leaves open: two
  arrangements of the same keys give two different lists.
\<close>

lemma missingMsgids_follows_range:
  "rangeOrder entriesABC [''b'', ''c'', ''a''] \<and> rangeOrder entriesABC [''c'', ''b'', ''a''] \<and>
   missingMsgids [''b'', ''c'', ''a''] [(''a'', True)] = [''b'', ''c''] \<and>
   missingMsgids [''c'', ''b'', ''a''] [(''a'', True)] = [''c'', ''b'']"
  by code_simp

text \<open>
  The order of the range reaches the run through the list of the keys to add and in no
  other way: two orders that give the same list give the same run.
\<close>

lemma translatePoFile_same_missing:
  assumes "disk w poFile = Some content"
    and "forLines existingLine existingInit (Split content NL) = Some st"
    and "missingMsgids order1 (existingMsgids st) = missingMsgids order2 (existingMsgids st)"
  shows "translatePoFile ev order1 w poFile potEntries srcLang targetLang delay =
         translatePoFile ev order2 w poFile potEntries srcLang targetLang delay"
  using assms by (simp add: translatePoFile_def addPhase_def)

text \<open>
  C2. The claim: the keys to add and the keys to translate are enumerated in template
  order, never in an unordered or hash-derived order, so that two runs on identical
  inputs produce identical output files. The keys to add are collected by a range over
  the map \<^verbatim>\<open>potEntries\<close> (main.go, 435), whose order Go leaves open, and the second
  pass finds them in the order in which they were appended. On the template a, b, c and
  the target file that has only a, a range that visits a, b, c and a range that visits
  c, a, b are both possible: the first run calls the backend for b and then c and
  writes the entries a, b, c, the second calls it for c and then b and writes a, c, b.
\<close>

theorem translatePoFile_output_follows_range:
  "parsePotFile (disk localesAB) ''l/x.pot'' = Inr (entriesABC, ''en'') \<and>
   rangeOrder entriesABC [''a'', ''b'', ''c''] \<and> rangeOrder entriesABC [''c'', ''a'', ''b''] \<and>
   (case translatePoFile german [''a'', ''b'', ''c''] localesAB ''l/x_de.po'' entriesABC
           ''en'' ''de'' 1 of
      (w1, r1) \<Rightarrow>
        (case translatePoFile german [''c'', ''a'', ''b''] localesAB ''l/x_de.po'' entriesABC
                ''en'' ''de'' 1 of
           (w2, r2) \<Rightarrow>
             (r1, translateCalls w1, keyLines w1 ''l/x_de.po'',
              r2, translateCalls w2, keyLines w2 ''l/x_de.po''))) =
   (Inr 2, [''b'', ''c''],
    [''msgid '' @ quoted [], ''msgid '' @ quoted ''a'', ''msgid '' @ quoted ''b'',
     ''msgid '' @ quoted ''c''],
    Inr 2, [''c'', ''b''],
    [''msgid '' @ quoted [], ''msgid '' @ quoted ''a'', ''msgid '' @ quoted ''c'',
     ''msgid '' @ quoted ''b''])"
  by code_simp

section \<open>The patch of incremental sync\<close>

lemma lookAhead_msgstr:
  "rest = [] \<or> msgstrLine (hd rest) \<Longrightarrow> lookAhead st rest = Some st"
  by (cases rest) (auto simp: msgstrLine_def)

lemma keyOf_msgstr: "msgstrLine l \<Longrightarrow> keyOf l = None"
  using msgid_not_msgstr [of "TrimSpace l"] by (auto simp: keyOf_def msgstrLine_def)

lemma patchLine_adjacent:
  assumes inv: "patchInv tr st prev"
    and adj: "if translationAfter tr prev \<noteq> None then msgstrLine l else True"
    and nxt: "if translationAfter tr (Some l) \<noteq> None then rest = [] \<or> msgstrLine (hd rest) else True"
    and step: "patchLine tr st prev l rest = Some st1"
  shows "newLines st1 = newLines st @ patched tr prev [l] \<and> patchInv tr st1 (Some l)"
proof (cases "HasPrefix (TrimSpace l) ''msgid ''")
  case True
  note isid = this
  then have notstr: "\<not> msgstrLine l" using msgid_not_msgstr by (simp add: msgstrLine_def)
  then have noskip: "\<not> skipNextMsgstr st" "translationAfter tr prev = None"
    using inv adj by (auto simp: patchInv_def translationAfter_def split: if_splits)
  from step isid obtain k where k: "extractString (drop 6 (TrimSpace l)) = Some k"
    by (auto simp: patchLine_def Let_def split: option.splits)
  then have key: "keyOf l = Some k" using isid by (simp add: keyOf_def)
  let ?st1 = "st\<lparr>currentMsgid := k, inMsgid := True, inMsgstr := False,
                  newLines := newLines st @ [l]\<rparr>"
  show ?thesis
  proof (cases "map_of tr k")
    case None
    then have "st1 = ?st1" using step isid k by (simp add: patchLine_def Let_def)
    then show ?thesis using notstr noskip None key
      by (simp add: patchInv_def translationAfter_def)
  next
    case (Some t)
    then have "translationAfter tr (Some l) \<noteq> None" using key by (simp add: translationAfter_def)
    then have "rest = [] \<or> msgstrLine (hd rest)" using nxt by simp
    then have "lookAhead (?st1\<lparr>skipNextMsgstr := True\<rparr>) rest = Some (?st1\<lparr>skipNextMsgstr := True\<rparr>)"
      by (rule lookAhead_msgstr)
    then have "st1 = ?st1\<lparr>skipNextMsgstr := True\<rparr>"
      using step isid k Some by (simp add: patchLine_def Let_def)
    then show ?thesis using notstr Some key
      by (simp add: patchInv_def translationAfter_def)
  qed
next
  case False
  note notid = this
  then have nokey: "keyOf l = None" by (simp add: keyOf_def)
  then have after: "translationAfter tr (Some l) = None" by (simp add: translationAfter_def)
  show ?thesis
  proof (cases "msgstrLine l")
    case True
    note isstr = this
    show ?thesis
    proof (cases "skipNextMsgstr st")
      case True
      then obtain p where p: "prev = Some p" "keyOf p = Some (currentMsgid st)"
          "map_of tr (currentMsgid st) \<noteq> None"
        using inv by (auto simp: patchInv_def)
      then obtain t where t: "map_of tr (currentMsgid st) = Some t" by auto
      have "st1 = st\<lparr>inMsgid := False, inMsgstr := True,
                      newLines := newLines st @ literalLines ''msgstr'' t,
                      skipNextMsgstr := False\<rparr>"
        using step notid isstr True t by (simp add: patchLine_def Let_def msgstrLine_def)
      then show ?thesis using isstr p t after
        by (simp add: patchInv_def translationAfter_def)
    next
      case False
      then have none: "translationAfter tr prev = None" using inv by (simp add: patchInv_def)
      have "st1 = st\<lparr>inMsgid := False, inMsgstr := True, newLines := newLines st @ [l]\<rparr>"
        using step notid isstr False by (simp add: patchLine_def Let_def msgstrLine_def)
      then show ?thesis using isstr none after False
        by (simp add: patchInv_def)
    qed
  next
    case False
    note notstr = this
    then have noskip: "\<not> skipNextMsgstr st"
      using inv adj by (auto simp: patchInv_def translationAfter_def split: if_splits)
    then have none: "translationAfter tr prev = None" using inv by (simp add: patchInv_def)
    from step notid notstr noskip
    have "newLines st1 = newLines st @ [l] \<and> \<not> skipNextMsgstr st1"
      by (auto simp: patchLine_def Let_def msgstrLine_def split: if_splits option.splits)
    then show ?thesis using notstr after by (simp add: patchInv_def)
  qed
qed

lemma patchLoop_adjacent:
  assumes "patchInv tr st prev"
    and "adjacent tr (case prev of None \<Rightarrow> lines | Some p \<Rightarrow> p # lines)"
    and "patchLoop tr st prev lines = Some st'"
  shows "newLines st' = newLines st @ patched tr prev lines"
  using assms
proof (induction lines arbitrary: st prev)
  case Nil
  then show ?case by simp
next
  case (Cons l rest)
  from Cons.prems(3) obtain st1 where
    st1: "patchLine tr st prev l rest = Some st1" and loop: "patchLoop tr st1 (Some l) rest = Some st'"
    by (auto split: option.splits)
  have adj: "if translationAfter tr prev \<noteq> None then msgstrLine l else True"
    using Cons.prems(2) by (cases prev) (auto simp: translationAfter_def)
  have tail: "adjacent tr (l # rest)"
    using Cons.prems(2) by (cases prev) auto
  have nxt: "if translationAfter tr (Some l) \<noteq> None then rest = [] \<or> msgstrLine (hd rest) else True"
    using tail by (cases rest) auto
  from patchLine_adjacent [OF Cons.prems(1) adj nxt st1]
  have one: "newLines st1 = newLines st @ patched tr prev [l]" and inv1: "patchInv tr st1 (Some l)"
    by auto
  have "newLines st' = newLines st1 @ patched tr (Some l) rest"
    using Cons.IH [OF inv1 _ loop] tail by simp
  then show ?case using one by simp
qed

text \<open>
  The first and the third pass on an adjacent file. The entries to add are appended
  behind the lines of the file (and behind one empty line when the last line is not
  empty), each as an empty line, its comments, the lines of the key and an empty
  \<^verbatim>\<open>msgstr\<close>. In an adjacent file each \<^verbatim>\<open>msgstr\<close> line that directly follows a
  \<^verbatim>\<open>msgid\<close> line whose own literal is a key with a translation is replaced by the
  lines of the translation, and every other line is copied once, in its place.
\<close>

lemma patchLoop_on_adjacent_file:
  assumes "adjacent translations lines"
    and "patchLoop translations patchInit None lines = Some st"
  shows "newLines st = patched translations None lines \<and>
         addMissing potEntries missing lines =
           lines @ (if lines \<noteq> [] \<and> last lines \<noteq> [] then [[]] else []) @
           concat (map (\<lambda>msgid. [[]] @ addedComments potEntries msgid @
                                 literalLines ''msgid'' msgid @ [''msgstr '' @ [DQ, DQ]])
                     missing)"
proof
  have "patchInv translations patchInit None"
    by (simp add: patchInv_def patchInit_def translationAfter_def)
  from patchLoop_adjacent [OF this _ assms(2)] assms(1)
  show "newLines st = patched translations None lines" by (simp add: patchInit_def)
  have "entryBlock potEntries = (\<lambda>msgid. [[]] @ addedComments potEntries msgid @
                                 literalLines ''msgid'' msgid @ [''msgstr '' @ [DQ, DQ]])"
    by (auto simp: entryBlock_def addedComments_def fun_eq_iff split: option.splits)
  then show "addMissing potEntries missing lines =
           lines @ (if lines \<noteq> [] \<and> last lines \<noteq> [] then [[]] else []) @
           concat (map (\<lambda>msgid. [[]] @ addedComments potEntries msgid @
                                 literalLines ''msgid'' msgid @ [''msgstr '' @ [DQ, DQ]])
                     missing)"
    by (simp add: addMissing_def Let_def)
qed

text \<open>
  At the target file with b and c added and a translation for each, the two \<^verbatim>\<open>msgstr\<close>
  lines are replaced and every other line stays.
\<close>

lemma patchLoop_on_added_entries:
  "adjacent translationsBC addedBC \<and>
   patchLoop translationsBC patchInit None addedBC \<noteq> None \<and>
   newLines (the (patchLoop translationsBC patchInit None addedBC)) = patchedBC"
proof -
  have h1: "adjacent translationsBC addedBC" by code_simp
  have some: "patchLoop translationsBC patchInit None addedBC \<noteq> None" by code_simp
  then have h2: "patchLoop translationsBC patchInit None addedBC =
                   Some (the (patchLoop translationsBC patchInit None addedBC))"
    by simp
  have v: "patched translationsBC None addedBC = patchedBC" by code_simp
  from patchLoop_on_adjacent_file [OF h1 h2] v
  have "newLines (the (patchLoop translationsBC patchInit None addedBC)) = patchedBC"
    by simp
  then show ?thesis using h1 some by simp
qed

text \<open>
  For a key that has no comments in the template the added entry gets a comment line of
  the program's own (main.go, 455 to 457).
\<close>

lemma added_entry_placeholder:
  "map_of entriesPlain ''b'' = Some \<lparr>Msgstr = [], Comments = []\<rparr> \<and>
   drop (length (Split poA NL))
     (linesOf (fst (translatePoFile offline [''b''] localesA ''l/x_de.po'' entriesPlain
                      ''en'' ''de'' 1)) ''l/x_de.po'') =
   [[], ''#: (added from POT)'', ''msgid '' @ quoted ''b'', ''msgstr '' @ quoted []]"
  by code_simp

text \<open>
  The third pass alone on the two shapes of entry that it gets wrong: a comment between a
  translated \<^verbatim>\<open>msgid\<close> and its \<^verbatim>\<open>msgstr\<close> is copied by the look-ahead and again by
  the outer loop; and a key written as an empty literal with continuation lines is
  looked up as the empty key, so that its recorded translation is never written.
\<close>

lemma patchLoop_copies_twice:
  "map_option newLines
     (patchLoop [(''a'', ''A'')] patchInit None
        [''msgid '' @ quoted ''a'', ''# note'', ''msgstr '' @ quoted []]) =
   Some [''msgid '' @ quoted ''a'', ''# note'', ''# note'', ''msgstr '' @ quoted ''A'']"
  by code_simp

lemma patchLoop_skips_multiline_key:
  "map_option newLines
     (patchLoop [(helloWorld, halloWelt)] patchInit None
        [''msgid '' @ quoted [], quoted (''Hello'' @ [BSL, CHR ''n'']), quoted ''World'',
         ''msgstr '' @ quoted []]) =
   Some [''msgid '' @ quoted [], quoted (''Hello'' @ [BSL, CHR ''n'']), quoted ''World'',
         ''msgstr '' @ quoted []]"
  by code_simp

text \<open>
  C4. The claim: in the patch each \<^verbatim>\<open>msgstr\<close> block whose owning key is in the
  translation map is replaced in place, and every other line of the file is
  byte-identical to the input, comment and continuation lines between a translated
  \<^verbatim>\<open>msgid\<close> and its \<^verbatim>\<open>msgstr\<close> included. The third pass looks a key up at its
  \<^verbatim>\<open>msgid\<close> line, before the continuation lines of the key are read (main.go, 598 to
  604), and the assignments \<^verbatim>\<open>i = j\<close> of its look-ahead (main.go, 616 and 621) do not
  move the \<^verbatim>\<open>range\<close> loop. In a run on a target file whose only entry has the key of
  two lines, written as an empty literal and two continuation lines, the backend is
  called, the run reports one translation and the file is written back as it was, the
  \<^verbatim>\<open>msgstr\<close> still empty. In a run on a target file with a comment between the
  \<^verbatim>\<open>msgid\<close> line of a and its \<^verbatim>\<open>msgstr\<close> line, the translation is written and the
  comment stands twice in the file.
\<close>

theorem translatePoFile_patch_skips_and_duplicates:
  "parsePotFile (disk localesHelloLines) ''l/x.pot'' = Inr (entriesHello, ''en'') \<and>
   (case translatePoFile german [helloWorld] localesHelloLines ''l/x_de.po'' entriesHello
           ''en'' ''de'' 1 of
      (w, r) \<Rightarrow> (r, translateCalls w, disk w ''l/x_de.po'')) =
   (Inr 1, [helloWorld], Some poHelloLines) \<and>
   parsePotFile (disk localesNote) ''l/x.pot'' = Inr (entriesNote, ''en'') \<and>
   (case translatePoFile german [''a''] localesNote ''l/x_de.po'' entriesNote
           ''en'' ''de'' 1 of
      (w, r) \<Rightarrow> (r, translateCalls w, drop 4 (linesOf w ''l/x_de.po''))) =
   (Inr 1, [''a''],
    [''msgid '' @ quoted ''a'', ''# note'', ''# note'', ''msgstr '' @ quoted ''de:a'', []])"
  by code_simp

end
